theory Spec2Isabelle
  imports Complex_Main "HOL-Library.Monad_Syntax"
begin

section \<open>Numbers of the analyzer\<close>

text \<open>
  The analyzer computes with IEEE doubles (numpy \<open>float64\<close> inside the data frame, Python
  \<open>float\<close> in the result). The model keeps the special values of that arithmetic and
  idealises the finite ones: a finite double is a real number, arithmetic on finite values
  is exact (no rounding, no overflow), and zero carries no sign. \<open>NaN\<close> is pandas'
  marker for "no value" (a rolling window that is not yet full, the first difference, a
  \<open>0/0\<close>).
\<close>

datatype pyfloat = Num real | PInf | NInf | NaN

text \<open>Comparisons: every comparison with \<open>NaN\<close> is false.\<close>

fun flt :: "pyfloat \<Rightarrow> pyfloat \<Rightarrow> bool" where
  "flt NaN _ = False"
| "flt _ NaN = False"
| "flt (Num a) (Num b) = (a < b)"
| "flt (Num a) PInf = True"
| "flt (Num a) NInf = False"
| "flt PInf _ = False"
| "flt NInf NInf = False"
| "flt NInf _ = True"

fun feq :: "pyfloat \<Rightarrow> pyfloat \<Rightarrow> bool" where
  "feq NaN _ = False"
| "feq _ NaN = False"
| "feq a b = (a = b)"

definition fgt :: "pyfloat \<Rightarrow> pyfloat \<Rightarrow> bool" where
  "fgt a b = flt b a"

definition fle :: "pyfloat \<Rightarrow> pyfloat \<Rightarrow> bool" where
  "fle a b = (flt a b \<or> feq a b)"

definition fge :: "pyfloat \<Rightarrow> pyfloat \<Rightarrow> bool" where
  "fge a b = fle b a"

text \<open>Arithmetic with the IEEE rules for infinities and \<open>NaN\<close>.\<close>

fun fneg :: "pyfloat \<Rightarrow> pyfloat" where
  "fneg (Num a) = Num (- a)"
| "fneg PInf = NInf"
| "fneg NInf = PInf"
| "fneg NaN = NaN"

fun fabs :: "pyfloat \<Rightarrow> pyfloat" where
  "fabs (Num a) = Num \<bar>a\<bar>"
| "fabs PInf = PInf"
| "fabs NInf = PInf"
| "fabs NaN = NaN"

fun fadd :: "pyfloat \<Rightarrow> pyfloat \<Rightarrow> pyfloat" where
  "fadd NaN _ = NaN"
| "fadd _ NaN = NaN"
| "fadd (Num a) (Num b) = Num (a + b)"
| "fadd (Num a) PInf = PInf"
| "fadd (Num a) NInf = NInf"
| "fadd PInf NInf = NaN"
| "fadd PInf _ = PInf"
| "fadd NInf PInf = NaN"
| "fadd NInf _ = NInf"

definition fsub :: "pyfloat \<Rightarrow> pyfloat \<Rightarrow> pyfloat" where
  "fsub a b = fadd a (fneg b)"

text \<open>An infinity with the sign of a real factor; \<open>inf * 0\<close> is \<open>NaN\<close>.\<close>

definition signed_inf :: "real \<Rightarrow> pyfloat" where
  "signed_inf s = (if s > 0 then PInf else if s < 0 then NInf else NaN)"

fun fmul :: "pyfloat \<Rightarrow> pyfloat \<Rightarrow> pyfloat" where
  "fmul NaN _ = NaN"
| "fmul _ NaN = NaN"
| "fmul (Num a) (Num b) = Num (a * b)"
| "fmul (Num a) PInf = signed_inf a"
| "fmul (Num a) NInf = signed_inf (- a)"
| "fmul PInf (Num b) = signed_inf b"
| "fmul NInf (Num b) = signed_inf (- b)"
| "fmul PInf PInf = PInf"
| "fmul PInf NInf = NInf"
| "fmul NInf PInf = NInf"
| "fmul NInf NInf = PInf"

text \<open>
  numpy's division: a finite value over zero is an infinity of the dividend's sign,
  \<open>0/0\<close> and \<open>inf/inf\<close> are \<open>NaN\<close>, nothing is raised.
\<close>

fun fdiv :: "pyfloat \<Rightarrow> pyfloat \<Rightarrow> pyfloat" where
  "fdiv NaN _ = NaN"
| "fdiv _ NaN = NaN"
| "fdiv (Num a) (Num b) = (if b \<noteq> 0 then Num (a / b) else signed_inf a)"
| "fdiv (Num a) PInf = Num 0"
| "fdiv (Num a) NInf = Num 0"
| "fdiv PInf (Num b) = (if b \<ge> 0 then PInf else NInf)"
| "fdiv NInf (Num b) = (if b \<ge> 0 then NInf else PInf)"
| "fdiv PInf _ = NaN"
| "fdiv NInf _ = NaN"

text \<open>
  Python's own \<open>float\<close> division raises \<open>ZeroDivisionError\<close> on a zero divisor.
  \<open>None\<close> is the raised exception.
\<close>

definition pydiv :: "pyfloat \<Rightarrow> pyfloat \<Rightarrow> pyfloat option" where
  "pydiv a b = (if b = Num 0 then None else Some (fdiv a b))"

section \<open>Enumerations\<close>

datatype TrendStatus =
  STRONG_BULL | BULL | WEAK_BULL | CONSOLIDATION | WEAK_BEAR | BEAR | STRONG_BEAR

datatype VolumeStatus =
  HEAVY_VOLUME_UP | HEAVY_VOLUME_DOWN | SHRINK_VOLUME_UP | SHRINK_VOLUME_DOWN | NORMAL

datatype BuySignal = STRONG_BUY | BUY | HOLD | WAIT | SELL | STRONG_SELL

datatype MACDStatus =
  GOLDEN_CROSS_ZERO | GOLDEN_CROSS | BULLISH | CROSSING_UP | CROSSING_DOWN | BEARISH
  | DEATH_CROSS

text \<open>
  \<open>RSIStatus\<close> has a member \<open>STRONG_BUY\<close> of its own; its members carry the prefix
  \<open>RS_\<close> here to keep them apart from those of \<open>BuySignal\<close>.
\<close>

datatype RSIStatus = RS_OVERBOUGHT | RS_STRONG_BUY | RS_NEUTRAL | RS_WEAK | RS_OVERSOLD

text \<open>
  The \<open>value\<close> of each member is a Chinese label in the source; here it is an English
  gloss of that label. The same holds for every message of the analyzer below.
\<close>

fun TrendStatus_value :: "TrendStatus \<Rightarrow> string" where
  "TrendStatus_value STRONG_BULL = ''strong bull''"
| "TrendStatus_value BULL = ''bull alignment''"
| "TrendStatus_value WEAK_BULL = ''weak bull''"
| "TrendStatus_value CONSOLIDATION = ''consolidation''"
| "TrendStatus_value WEAK_BEAR = ''weak bear''"
| "TrendStatus_value BEAR = ''bear alignment''"
| "TrendStatus_value STRONG_BEAR = ''strong bear''"

fun VolumeStatus_value :: "VolumeStatus \<Rightarrow> string" where
  "VolumeStatus_value HEAVY_VOLUME_UP = ''rising on heavy volume''"
| "VolumeStatus_value HEAVY_VOLUME_DOWN = ''falling on heavy volume''"
| "VolumeStatus_value SHRINK_VOLUME_UP = ''rising on shrinking volume''"
| "VolumeStatus_value SHRINK_VOLUME_DOWN = ''pullback on shrinking volume''"
| "VolumeStatus_value NORMAL = ''normal volume''"

fun BuySignal_value :: "BuySignal \<Rightarrow> string" where
  "BuySignal_value STRONG_BUY = ''strong buy''"
| "BuySignal_value BUY = ''buy''"
| "BuySignal_value HOLD = ''hold''"
| "BuySignal_value WAIT = ''wait''"
| "BuySignal_value SELL = ''sell''"
| "BuySignal_value STRONG_SELL = ''strong sell''"

fun MACDStatus_value :: "MACDStatus \<Rightarrow> string" where
  "MACDStatus_value GOLDEN_CROSS_ZERO = ''golden cross above zero''"
| "MACDStatus_value GOLDEN_CROSS = ''golden cross''"
| "MACDStatus_value BULLISH = ''bullish''"
| "MACDStatus_value CROSSING_UP = ''crossing up through zero''"
| "MACDStatus_value CROSSING_DOWN = ''crossing down through zero''"
| "MACDStatus_value BEARISH = ''bearish''"
| "MACDStatus_value DEATH_CROSS = ''death cross''"

fun RSIStatus_value :: "RSIStatus \<Rightarrow> string" where
  "RSIStatus_value RS_OVERBOUGHT = ''overbought''"
| "RSIStatus_value RS_STRONG_BUY = ''strong''"
| "RSIStatus_value RS_NEUTRAL = ''neutral''"
| "RSIStatus_value RS_WEAK = ''weak''"
| "RSIStatus_value RS_OVERSOLD = ''oversold''"

section \<open>The result of an analysis\<close>

text \<open>
  A message is a list of fragments: literal text, and numbers that an f-string formats
  with \<open>:.1f\<close> (\<open>F1\<close>) or \<open>:+.1f\<close> (\<open>FS1\<close>). The decimal rendering itself is not
  modelled.
\<close>

datatype frag = Lit string | F1 pyfloat | FS1 pyfloat

type_synonym msg = "frag list"

record TrendAnalysisResult =
  code :: string
  trend_status :: TrendStatus
  ma_alignment :: msg
  trend_strength :: pyfloat
  ma5 :: pyfloat
  ma10 :: pyfloat
  ma20 :: pyfloat
  ma60 :: pyfloat
  ma250 :: pyfloat
  current_price :: pyfloat
  bias_ma5 :: pyfloat
  bias_ma10 :: pyfloat
  bias_ma20 :: pyfloat
  bias_ma60 :: pyfloat
  bias_ma250 :: pyfloat
  volume_status :: VolumeStatus
  volume_ratio_5d :: pyfloat
  volume_trend :: msg
  support_ma5 :: bool
  support_ma10 :: bool
  resistance_levels :: "pyfloat list"
  support_levels :: "pyfloat list"
  macd_dif :: pyfloat
  macd_dea :: pyfloat
  macd_bar :: pyfloat
  macd_status :: MACDStatus
  macd_signal :: msg
  rsi_6 :: pyfloat
  rsi_12 :: pyfloat
  rsi_24 :: pyfloat
  rsi_status :: RSIStatus
  rsi_signal :: msg
  kdj_k :: pyfloat
  kdj_d :: pyfloat
  kdj_j :: pyfloat
  kdj_signal :: msg
  bb_upper :: pyfloat
  bb_middle :: pyfloat
  bb_lower :: pyfloat
  bb_width :: pyfloat
  bb_position :: msg
  momentum_5d :: pyfloat
  momentum_10d :: pyfloat
  momentum_signal :: msg
  vol_ma5 :: pyfloat
  vol_ma10 :: pyfloat
  vol_ma20 :: pyfloat
  vol_ratio_ma5 :: pyfloat
  vol_trend :: msg
  buy_signal :: BuySignal
  signal_score :: int
  signal_reasons :: "msg list"
  risk_factors :: "msg list"

section \<open>Data frames\<close>

text \<open>
  A data frame is a list of rows. A row holds the required columns of a price bar (the
  date as a day number, the prices and the volume as finite numbers) and, under
  \<open>ind\<close>, the value of every further column by name. Frames are objects: a reference
  is an index into the heap, and the heap is the list of all frames allocated so far.
\<close>

record bar =
  date :: int
  bar_open :: real
  high :: real
  low :: real
  close :: real
  volume :: real
  ind :: "string \<rightharpoonup> pyfloat"

type_synonym frame = "bar list"
type_synonym ref = nat
type_synonym heap = "frame list"

definition df_new :: "frame \<Rightarrow> heap \<Rightarrow> ref \<times> heap" where
  "df_new f h = (length h, h @ [f])"

text \<open>\<open>df.copy()\<close>: a new object with the same rows.\<close>

definition df_copy :: "ref \<Rightarrow> heap \<Rightarrow> ref \<times> heap" where
  "df_copy p h = df_new (h ! p) h"

text \<open>
  \<open>df.sort_values('date')\<close> and \<open>.reset_index(drop=True)\<close> each return a new object.
  The sort is by date. Rows of equal date keep their order here; pandas' default sort
  (quicksort) may order them differently, and the analyzer expects distinct dates.
\<close>

definition df_sort_values_date :: "ref \<Rightarrow> heap \<Rightarrow> ref \<times> heap" where
  "df_sort_values_date p h = df_new (sort_key date (h ! p)) h"

definition df_reset_index :: "ref \<Rightarrow> heap \<Rightarrow> ref \<times> heap" where
  "df_reset_index p h = df_new (h ! p) h"

definition nth_or_nan :: "pyfloat list \<Rightarrow> nat \<Rightarrow> pyfloat" where
  "nth_or_nan xs i = (if i < length xs then xs ! i else NaN)"

text \<open>
  \<open>df[name] = xs\<close> writes a column into the object itself. A row without a value in
  \<open>xs\<close> gets \<open>NaN\<close>.
\<close>

definition setitem_rows :: "string \<Rightarrow> pyfloat list \<Rightarrow> frame \<Rightarrow> frame" where
  "setitem_rows name xs f =
     map (\<lambda>i. (f ! i)\<lparr>ind := (ind (f ! i))(name \<mapsto> nth_or_nan xs i)\<rparr>) [0..<length f]"

definition df_setitem :: "ref \<Rightarrow> string \<Rightarrow> pyfloat list \<Rightarrow> heap \<Rightarrow> heap" where
  "df_setitem p name xs h = h[p := setitem_rows name xs (h ! p)]"

text \<open>
  Reading a column. The required columns are always there; a further column that is
  missing raises \<open>KeyError\<close> (\<open>None\<close>).
\<close>

definition col_close :: "frame \<Rightarrow> pyfloat list" where
  "col_close f = map (\<lambda>r. Num (close r)) f"

definition col_high :: "frame \<Rightarrow> pyfloat list" where
  "col_high f = map (\<lambda>r. Num (high r)) f"

definition col_low :: "frame \<Rightarrow> pyfloat list" where
  "col_low f = map (\<lambda>r. Num (low r)) f"

definition col_volume :: "frame \<Rightarrow> pyfloat list" where
  "col_volume f = map (\<lambda>r. Num (volume r)) f"

definition df_getitem :: "frame \<Rightarrow> string \<Rightarrow> pyfloat list option" where
  "df_getitem f name =
     (if list_all (\<lambda>r. ind r name \<noteq> None) f then Some (map (\<lambda>r. the (ind r name)) f)
      else None)"

text \<open>
  \<open>df.iloc[-k]\<close>: the k-th row from the end, \<open>IndexError\<close> (\<open>None\<close>) when there is
  none. \<open>row[name]\<close> raises \<open>KeyError\<close> on a missing column, \<open>row.get(name, d)\<close>
  gives \<open>d\<close> instead.
\<close>

definition iloc_neg :: "frame \<Rightarrow> nat \<Rightarrow> bar option" where
  "iloc_neg f k = (if 1 \<le> k \<and> k \<le> length f then Some (f ! (length f - k)) else None)"

definition row_item :: "bar \<Rightarrow> string \<Rightarrow> pyfloat option" where
  "row_item r name = ind r name"

definition row_get :: "bar \<Rightarrow> string \<Rightarrow> pyfloat \<Rightarrow> pyfloat" where
  "row_get r name d = (case ind r name of None \<Rightarrow> d | Some v \<Rightarrow> v)"

section \<open>Series operations\<close>

text \<open>
  The finite values of a window, if all of them are finite. pandas gives no value to a
  window that holds a \<open>NaN\<close>; the analyzer never rolls over an infinity.

  The aggregates below are those of exact arithmetic. pandas computes them on doubles, with
  running sums: a sum beyond the range of a double turns the mean of a window of finite
  values into an infinity or \<open>NaN\<close>, and every result is rounded. Neither is modelled,
  so nothing below speaks of values near the limits of a double or of last-place
  differences.
\<close>

fun finite_values :: "pyfloat list \<Rightarrow> real list option" where
  "finite_values [] = Some []"
| "finite_values (Num a # xs) = map_option ((#) a) (finite_values xs)"
| "finite_values (_ # xs) = None"

definition fmean :: "pyfloat list \<Rightarrow> pyfloat" where
  "fmean xs = (case finite_values xs of
       None \<Rightarrow> NaN
     | Some rs \<Rightarrow> if rs = [] then NaN else Num (sum_list rs / real (length rs)))"

text \<open>The sample standard deviation (pandas' default \<open>ddof=1\<close>).\<close>

definition fstd :: "pyfloat list \<Rightarrow> pyfloat" where
  "fstd xs = (case finite_values xs of
       None \<Rightarrow> NaN
     | Some rs \<Rightarrow>
         if length rs < 2 then NaN
         else let m = sum_list rs / real (length rs)
              in Num (sqrt (sum_list (map (\<lambda>x. (x - m)\<^sup>2) rs) / real (length rs - 1))))"

definition fmin_list :: "pyfloat list \<Rightarrow> pyfloat" where
  "fmin_list xs = (case finite_values xs of
       None \<Rightarrow> NaN
     | Some rs \<Rightarrow> if rs = [] then NaN else Num (Min (set rs)))"

definition fmax_list :: "pyfloat list \<Rightarrow> pyfloat" where
  "fmax_list xs = (case finite_values xs of
       None \<Rightarrow> NaN
     | Some rs \<Rightarrow> if rs = [] then NaN else Num (Max (set rs)))"

text \<open>
  \<open>s.rolling(window=w).agg()\<close>: no value until the window is full, then the aggregate of
  the last \<open>w\<close> entries.
\<close>

definition rolling :: "nat \<Rightarrow> (pyfloat list \<Rightarrow> pyfloat) \<Rightarrow> pyfloat list \<Rightarrow> pyfloat list" where
  "rolling w agg xs =
     map (\<lambda>i. if i + 1 < w then NaN else agg (take w (drop (i + 1 - w) xs))) [0..<length xs]"

text \<open>
  \<open>s.ewm(span=n, adjust=False).mean()\<close>: \<open>y\<^sub>0 = x\<^sub>0\<close> and
  \<open>y\<^sub>t = (1 - a) y\<^sub>t\<^sub>-\<^sub>1 + a x\<^sub>t\<close> with \<open>a = 2 / (n + 1)\<close>. (pandas skips a \<open>NaN\<close>
  entry; the analyzer smooths only series without one.)
\<close>

fun ewm_from :: "real \<Rightarrow> pyfloat \<Rightarrow> pyfloat list \<Rightarrow> pyfloat list" where
  "ewm_from a y [] = []"
| "ewm_from a y (x # xs) =
     (let y' = fadd (fmul (Num (1 - a)) y) (fmul (Num a) x) in y' # ewm_from a y' xs)"

definition ewm_mean :: "nat \<Rightarrow> pyfloat list \<Rightarrow> pyfloat list" where
  "ewm_mean n xs =
     (case xs of [] \<Rightarrow> [] | x # rest \<Rightarrow> x # ewm_from (2 / (real n + 1)) x rest)"

text \<open>\<open>s.diff()\<close>, \<open>s.shift(n)\<close>, \<open>s.pct_change(periods=n)\<close>.\<close>

definition series_diff :: "pyfloat list \<Rightarrow> pyfloat list" where
  "series_diff xs = (case xs of [] \<Rightarrow> [] | x # rest \<Rightarrow> NaN # map2 fsub rest xs)"

definition series_shift :: "nat \<Rightarrow> pyfloat list \<Rightarrow> pyfloat list" where
  "series_shift n xs = take (length xs) (replicate n NaN @ xs)"

definition pct_change :: "nat \<Rightarrow> pyfloat list \<Rightarrow> pyfloat list" where
  "pct_change n xs = map2 (\<lambda>a b. fsub (fdiv a b) (Num 1)) xs (series_shift n xs)"

text \<open>\<open>s.where(cond, other)\<close>, \<open>s.fillna(v)\<close>, \<open>s.replace(0, nan)\<close>.\<close>

definition series_where :: "(pyfloat \<Rightarrow> bool) \<Rightarrow> pyfloat \<Rightarrow> pyfloat list \<Rightarrow> pyfloat list" where
  "series_where cond other xs = map (\<lambda>x. if cond x then x else other) xs"

definition fillna :: "pyfloat \<Rightarrow> pyfloat list \<Rightarrow> pyfloat list" where
  "fillna v xs = map (\<lambda>x. if x = NaN then v else x) xs"

definition replace_zero_nan :: "pyfloat list \<Rightarrow> pyfloat list" where
  "replace_zero_nan xs = map (\<lambda>x. if feq x (Num 0) then NaN else x) xs"

text \<open>Python's \<open>xs[-k:]\<close> and \<open>xs[-k:-1]\<close> on a series.\<close>

definition slice_last :: "nat \<Rightarrow> 'a list \<Rightarrow> 'a list" where
  "slice_last k xs = drop (length xs - k) xs"

definition slice_last_but_one :: "nat \<Rightarrow> 'a list \<Rightarrow> 'a list" where
  "slice_last_but_one k xs = take (length xs - 1 - (length xs - k)) (drop (length xs - k) xs)"

text \<open>The decimal digits of a number, for \<open>f'RSI_{period}'\<close>.\<close>

fun str_nat :: "nat \<Rightarrow> string" where
  "str_nat n =
     (if n < 10 then [char_of (48 + n)] else str_nat (n div 10) @ [char_of (48 + n mod 10)])"

declare str_nat.simps [simp del]

section \<open>Parameters of the analyzer\<close>

definition BIAS_THRESHOLD :: real where "BIAS_THRESHOLD = 5"
definition VOLUME_SHRINK_RATIO :: real where "VOLUME_SHRINK_RATIO = 7 / 10"
definition VOLUME_HEAVY_RATIO :: real where "VOLUME_HEAVY_RATIO = 3 / 2"
definition MA_SUPPORT_TOLERANCE :: real where "MA_SUPPORT_TOLERANCE = 2 / 100"
definition MACD_FAST :: nat where "MACD_FAST = 12"
definition MACD_SLOW :: nat where "MACD_SLOW = 26"
definition MACD_SIGNAL :: nat where "MACD_SIGNAL = 9"
definition RSI_SHORT :: nat where "RSI_SHORT = 6"
definition RSI_MID :: nat where "RSI_MID = 12"
definition RSI_LONG :: nat where "RSI_LONG = 24"
definition RSI_OVERBOUGHT :: real where "RSI_OVERBOUGHT = 70"
definition RSI_OVERSOLD :: real where "RSI_OVERSOLD = 30"
definition KDJ_PERIOD :: nat where "KDJ_PERIOD = 9"
definition KDJ_K_PERIOD :: nat where "KDJ_K_PERIOD = 3"
definition KDJ_D_PERIOD :: nat where "KDJ_D_PERIOD = 3"
definition KDJ_OVERBOUGHT :: real where "KDJ_OVERBOUGHT = 80"
definition KDJ_OVERSOLD :: real where "KDJ_OVERSOLD = 20"
definition BB_PERIOD :: nat where "BB_PERIOD = 20"
definition BB_STD_DEV :: real where "BB_STD_DEV = 2"
definition MOMENTUM_SHORT :: nat where "MOMENTUM_SHORT = 5"
definition MOMENTUM_LONG :: nat where "MOMENTUM_LONG = 10"

section \<open>Indicator calculators\<close>

text \<open>
  Each calculator copies the frame it is given, writes its columns into the copy and
  returns the copy. The result is the reference of the copy and the new heap, or
  \<open>None\<close> when reading a column raises.
\<close>

definition calculate_mas :: "ref \<Rightarrow> heap \<Rightarrow> (ref \<times> heap) option" where
  "calculate_mas df0 h0 = do {
     let (df, h) = df_copy df0 h0;
     let h = df_setitem df ''MA5'' (rolling 5 fmean (col_close (h ! df))) h;
     let h = df_setitem df ''MA10'' (rolling 10 fmean (col_close (h ! df))) h;
     let h = df_setitem df ''MA20'' (rolling 20 fmean (col_close (h ! df))) h;
     h \<leftarrow> (if length (h ! df) \<ge> 60
           then Some (df_setitem df ''MA60'' (rolling 60 fmean (col_close (h ! df))) h)
           else do { c \<leftarrow> df_getitem (h ! df) ''MA20''; Some (df_setitem df ''MA60'' c h) });
     h \<leftarrow> (if length (h ! df) \<ge> 250
           then Some (df_setitem df ''MA250'' (rolling 250 fmean (col_close (h ! df))) h)
           else do { c \<leftarrow> df_getitem (h ! df) ''MA60''; Some (df_setitem df ''MA250'' c h) });
     Some (df, h)
   }"

definition calculate_macd :: "ref \<Rightarrow> heap \<Rightarrow> (ref \<times> heap) option" where
  "calculate_macd df0 h0 = do {
     let (df, h) = df_copy df0 h0;
     let ema_fast = ewm_mean MACD_FAST (col_close (h ! df));
     let ema_slow = ewm_mean MACD_SLOW (col_close (h ! df));
     let h = df_setitem df ''MACD_DIF'' (map2 fsub ema_fast ema_slow) h;
     dif \<leftarrow> df_getitem (h ! df) ''MACD_DIF'';
     let h = df_setitem df ''MACD_DEA'' (ewm_mean MACD_SIGNAL dif) h;
     dif \<leftarrow> df_getitem (h ! df) ''MACD_DIF'';
     dea \<leftarrow> df_getitem (h ! df) ''MACD_DEA'';
     let h = df_setitem df ''MACD_BAR'' (map (\<lambda>x. fmul x (Num 2)) (map2 fsub dif dea)) h;
     Some (df, h)
   }"

text \<open>The body of the loop of \<open>_calculate_rsi\<close>: the RSI series of one period.\<close>

definition rsi_series :: "nat \<Rightarrow> pyfloat list \<Rightarrow> pyfloat list" where
  "rsi_series period cl =
     (let delta = series_diff cl;
          gain = series_where (\<lambda>d. fgt d (Num 0)) (Num 0) delta;
          loss = map fneg (series_where (\<lambda>d. flt d (Num 0)) (Num 0) delta);
          avg_gain = rolling period fmean gain;
          avg_loss = rolling period fmean loss;
          rs = map2 fdiv avg_gain avg_loss;
          rsi = map (\<lambda>x. fsub (Num 100) (fdiv (Num 100) (fadd (Num 1) x))) rs
      in fillna (Num 50) rsi)"

definition calculate_rsi :: "ref \<Rightarrow> heap \<Rightarrow> (ref \<times> heap) option" where
  "calculate_rsi df0 h0 = do {
     let (df, h) = df_copy df0 h0;
     let h = fold (\<lambda>period h.
                df_setitem df (''RSI_'' @ str_nat period) (rsi_series period (col_close (h ! df))) h)
              [RSI_SHORT, RSI_MID, RSI_LONG] h;
     Some (df, h)
   }"

definition calculate_kdj :: "ref \<Rightarrow> heap \<Rightarrow> (ref \<times> heap) option" where
  "calculate_kdj df0 h0 = do {
     let (df, h) = df_copy df0 h0;
     let period = KDJ_PERIOD;
     let low_min = rolling period fmin_list (col_low (h ! df));
     let high_max = rolling period fmax_list (col_high (h ! df));
     let denominator = map2 fsub high_max low_min;
     let denominator = replace_zero_nan denominator;
     let rsv = map (\<lambda>x. fmul x (Num 100))
                 (map2 fdiv (map2 fsub (col_close (h ! df)) low_min) denominator);
     let rsv = fillna (Num 50) rsv;
     let h = df_setitem df ''KDJ_K'' (ewm_mean KDJ_K_PERIOD rsv) h;
     k \<leftarrow> df_getitem (h ! df) ''KDJ_K'';
     let h = df_setitem df ''KDJ_D'' (ewm_mean KDJ_D_PERIOD k) h;
     k \<leftarrow> df_getitem (h ! df) ''KDJ_K'';
     d \<leftarrow> df_getitem (h ! df) ''KDJ_D'';
     let h = df_setitem df ''KDJ_J''
               (map2 fsub (map (\<lambda>x. fmul (Num 3) x) k) (map (\<lambda>x. fmul (Num 2) x) d)) h;
     Some (df, h)
   }"

definition calculate_bollinger_bands :: "ref \<Rightarrow> heap \<Rightarrow> (ref \<times> heap) option" where
  "calculate_bollinger_bands df0 h0 = do {
     let (df, h) = df_copy df0 h0;
     let period = BB_PERIOD;
     let std_dev = BB_STD_DEV;
     let h = df_setitem df ''BB_MIDDLE'' (rolling period fmean (col_close (h ! df))) h;
     let std = rolling period fstd (col_close (h ! df));
     mid \<leftarrow> df_getitem (h ! df) ''BB_MIDDLE'';
     let h = df_setitem df ''BB_UPPER'' (map2 fadd mid (map (\<lambda>s. fmul s (Num std_dev)) std)) h;
     mid \<leftarrow> df_getitem (h ! df) ''BB_MIDDLE'';
     let h = df_setitem df ''BB_LOWER'' (map2 fsub mid (map (\<lambda>s. fmul s (Num std_dev)) std)) h;
     Some (df, h)
   }"

definition calculate_momentum :: "ref \<Rightarrow> heap \<Rightarrow> (ref \<times> heap) option" where
  "calculate_momentum df0 h0 = do {
     let (df, h) = df_copy df0 h0;
     let h = df_setitem df ''MOMENTUM_5D''
               (map (\<lambda>x. fmul x (Num 100)) (pct_change MOMENTUM_SHORT (col_close (h ! df)))) h;
     let h = df_setitem df ''MOMENTUM_10D''
               (map (\<lambda>x. fmul x (Num 100)) (pct_change MOMENTUM_LONG (col_close (h ! df)))) h;
     Some (df, h)
   }"

definition calculate_volume_ma :: "ref \<Rightarrow> heap \<Rightarrow> (ref \<times> heap) option" where
  "calculate_volume_ma df0 h0 = do {
     let (df, h) = df_copy df0 h0;
     let h = df_setitem df ''VOL_MA5'' (rolling 5 fmean (col_volume (h ! df))) h;
     let h = df_setitem df ''VOL_MA10'' (rolling 10 fmean (col_volume (h ! df))) h;
     let h = df_setitem df ''VOL_MA20'' (rolling 20 fmean (col_volume (h ! df))) h;
     Some (df, h)
   }"

section \<open>The result aggregate: defaults and the flat mapping\<close>

text \<open>\<open>TrendAnalysisResult(code=code)\<close>: every other field at its declared default.\<close>

definition default_result :: "string \<Rightarrow> TrendAnalysisResult" where
  "default_result c = \<lparr>
     code = c,
     trend_status = CONSOLIDATION,
     ma_alignment = [],
     trend_strength = Num 0,
     ma5 = Num 0, ma10 = Num 0, ma20 = Num 0, ma60 = Num 0, ma250 = Num 0,
     current_price = Num 0,
     bias_ma5 = Num 0, bias_ma10 = Num 0, bias_ma20 = Num 0, bias_ma60 = Num 0,
     bias_ma250 = Num 0,
     volume_status = NORMAL,
     volume_ratio_5d = Num 0,
     volume_trend = [],
     support_ma5 = False,
     support_ma10 = False,
     resistance_levels = [],
     support_levels = [],
     macd_dif = Num 0, macd_dea = Num 0, macd_bar = Num 0,
     macd_status = BULLISH,
     macd_signal = [],
     rsi_6 = Num 0, rsi_12 = Num 0, rsi_24 = Num 0,
     rsi_status = RS_NEUTRAL,
     rsi_signal = [],
     kdj_k = Num 0, kdj_d = Num 0, kdj_j = Num 0,
     kdj_signal = [],
     bb_upper = Num 0, bb_middle = Num 0, bb_lower = Num 0, bb_width = Num 0,
     bb_position = [],
     momentum_5d = Num 0, momentum_10d = Num 0,
     momentum_signal = [],
     vol_ma5 = Num 0, vol_ma10 = Num 0, vol_ma20 = Num 0, vol_ratio_ma5 = Num 0,
     vol_trend = [],
     buy_signal = WAIT,
     signal_score = 0,
     signal_reasons = [],
     risk_factors = []
   \<rparr>"

text \<open>The names of the fields of the dataclass, in the order of their declaration.\<close>

definition TrendAnalysisResult_fields :: "string list" where
  "TrendAnalysisResult_fields =
     [''code'', ''trend_status'', ''ma_alignment'', ''trend_strength'',
      ''ma5'', ''ma10'', ''ma20'', ''ma60'', ''ma250'', ''current_price'',
      ''bias_ma5'', ''bias_ma10'', ''bias_ma20'', ''bias_ma60'', ''bias_ma250'',
      ''volume_status'', ''volume_ratio_5d'', ''volume_trend'',
      ''support_ma5'', ''support_ma10'', ''resistance_levels'', ''support_levels'',
      ''macd_dif'', ''macd_dea'', ''macd_bar'', ''macd_status'', ''macd_signal'',
      ''rsi_6'', ''rsi_12'', ''rsi_24'', ''rsi_status'', ''rsi_signal'',
      ''kdj_k'', ''kdj_d'', ''kdj_j'', ''kdj_signal'',
      ''bb_upper'', ''bb_middle'', ''bb_lower'', ''bb_width'', ''bb_position'',
      ''momentum_5d'', ''momentum_10d'', ''momentum_signal'',
      ''vol_ma5'', ''vol_ma10'', ''vol_ma20'', ''vol_ratio_ma5'', ''vol_trend'',
      ''buy_signal'', ''signal_score'', ''signal_reasons'', ''risk_factors'']"

datatype pyval =
  VStr string | VMsg msg | VFloat pyfloat | VInt int | VBool bool | VMsgList "msg list"

text \<open>\<open>to_dict\<close>: the dictionary literal, as the list of its items in order.\<close>

definition to_dict :: "TrendAnalysisResult \<Rightarrow> (string \<times> pyval) list" where
  "to_dict self =
     [(''code'', VStr (code self)),
      (''trend_status'', VStr (TrendStatus_value (trend_status self))),
      (''ma_alignment'', VMsg (ma_alignment self)),
      (''trend_strength'', VFloat (trend_strength self)),
      (''ma5'', VFloat (ma5 self)),
      (''ma10'', VFloat (ma10 self)),
      (''ma20'', VFloat (ma20 self)),
      (''ma60'', VFloat (ma60 self)),
      (''current_price'', VFloat (current_price self)),
      (''bias_ma5'', VFloat (bias_ma5 self)),
      (''bias_ma10'', VFloat (bias_ma10 self)),
      (''bias_ma20'', VFloat (bias_ma20 self)),
      (''volume_status'', VStr (VolumeStatus_value (volume_status self))),
      (''volume_ratio_5d'', VFloat (volume_ratio_5d self)),
      (''volume_trend'', VMsg (volume_trend self)),
      (''support_ma5'', VBool (support_ma5 self)),
      (''support_ma10'', VBool (support_ma10 self)),
      (''buy_signal'', VStr (BuySignal_value (buy_signal self))),
      (''signal_score'', VInt (signal_score self)),
      (''signal_reasons'', VMsgList (signal_reasons self)),
      (''risk_factors'', VMsgList (risk_factors self)),
      (''macd_dif'', VFloat (macd_dif self)),
      (''macd_dea'', VFloat (macd_dea self)),
      (''macd_bar'', VFloat (macd_bar self)),
      (''macd_status'', VStr (MACDStatus_value (macd_status self))),
      (''macd_signal'', VMsg (macd_signal self)),
      (''rsi_6'', VFloat (rsi_6 self)),
      (''rsi_12'', VFloat (rsi_12 self)),
      (''rsi_24'', VFloat (rsi_24 self)),
      (''rsi_status'', VStr (RSIStatus_value (rsi_status self))),
      (''rsi_signal'', VMsg (rsi_signal self)),
      (''ma250'', VFloat (ma250 self)),
      (''bias_ma60'', VFloat (bias_ma60 self)),
      (''bias_ma250'', VFloat (bias_ma250 self)),
      (''kdj_k'', VFloat (kdj_k self)),
      (''kdj_d'', VFloat (kdj_d self)),
      (''kdj_j'', VFloat (kdj_j self)),
      (''kdj_signal'', VMsg (kdj_signal self)),
      (''bb_upper'', VFloat (bb_upper self)),
      (''bb_middle'', VFloat (bb_middle self)),
      (''bb_lower'', VFloat (bb_lower self)),
      (''bb_width'', VFloat (bb_width self)),
      (''bb_position'', VMsg (bb_position self)),
      (''momentum_5d'', VFloat (momentum_5d self)),
      (''momentum_10d'', VFloat (momentum_10d self)),
      (''momentum_signal'', VMsg (momentum_signal self)),
      (''vol_ma5'', VFloat (vol_ma5 self)),
      (''vol_ma10'', VFloat (vol_ma10 self)),
      (''vol_ma20'', VFloat (vol_ma20 self)),
      (''vol_ratio_ma5'', VFloat (vol_ratio_ma5 self)),
      (''vol_trend'', VMsg (vol_trend self))]"

definition dict_keys :: "(string \<times> pyval) list \<Rightarrow> string set" where
  "dict_keys d = set (map fst d)"

section \<open>Classifiers\<close>

text \<open>
  The classifiers read the frame and update the result. None of them writes to the
  frame, so each takes the frame as a value. \<open>None\<close> is a raised exception
  (\<open>IndexError\<close>, \<open>KeyError\<close>, \<open>ZeroDivisionError\<close>).
\<close>

definition MSG_INSUFFICIENT :: msg where
  "MSG_INSUFFICIENT = [Lit ''insufficient data'']"

definition MSG_INSUFFICIENT_ANALYSIS :: msg where
  "MSG_INSUFFICIENT_ANALYSIS = [Lit ''insufficient data, the analysis cannot be completed'']"

definition analyze_trend :: "frame \<Rightarrow> TrendAnalysisResult \<Rightarrow> TrendAnalysisResult option" where
  "analyze_trend df result =
     (let m5 = ma5 result; m10 = ma10 result; m20 = ma20 result in
      if fgt m5 m10 \<and> fgt m10 m20 then do {
        prev \<leftarrow> (if length df \<ge> 5 then iloc_neg df 5 else iloc_neg df 1);
        p20 \<leftarrow> row_item prev ''MA20'';
        prev_spread \<leftarrow> (if fgt p20 (Num 0)
           then do {
             a \<leftarrow> row_item prev ''MA5'';
             b \<leftarrow> row_item prev ''MA20'';
             c \<leftarrow> row_item prev ''MA20'';
             Some (fmul (fdiv (fsub a b) c) (Num 100)) }
           else Some (Num 0));
        curr_spread \<leftarrow> (if fgt m20 (Num 0)
           then do { q \<leftarrow> pydiv (fsub m5 m20) m20; Some (fmul q (Num 100)) }
           else Some (Num 0));
        Some (if fgt curr_spread prev_spread \<and> fgt curr_spread (Num 5)
          then result\<lparr>trend_status := STRONG_BULL,
                 ma_alignment := [Lit ''strong bull alignment, averages fanning out upwards''],
                 trend_strength := Num 90\<rparr>
          else result\<lparr>trend_status := BULL,
                 ma_alignment := [Lit ''bull alignment MA5>MA10>MA20''],
                 trend_strength := Num 75\<rparr>) }
      else if fgt m5 m10 \<and> fle m10 m20 then
        Some (result\<lparr>trend_status := WEAK_BULL,
                ma_alignment := [Lit ''weak bull, MA5>MA10 but MA10<=MA20''],
                trend_strength := Num 55\<rparr>)
      else if flt m5 m10 \<and> flt m10 m20 then do {
        prev \<leftarrow> (if length df \<ge> 5 then iloc_neg df 5 else iloc_neg df 1);
        p5 \<leftarrow> row_item prev ''MA5'';
        prev_spread \<leftarrow> (if fgt p5 (Num 0)
           then do {
             a \<leftarrow> row_item prev ''MA20'';
             b \<leftarrow> row_item prev ''MA5'';
             c \<leftarrow> row_item prev ''MA5'';
             Some (fmul (fdiv (fsub a b) c) (Num 100)) }
           else Some (Num 0));
        curr_spread \<leftarrow> (if fgt m5 (Num 0)
           then do { q \<leftarrow> pydiv (fsub m20 m5) m5; Some (fmul q (Num 100)) }
           else Some (Num 0));
        Some (if fgt curr_spread prev_spread \<and> fgt curr_spread (Num 5)
          then result\<lparr>trend_status := STRONG_BEAR,
                 ma_alignment := [Lit ''strong bear alignment, averages fanning out downwards''],
                 trend_strength := Num 10\<rparr>
          else result\<lparr>trend_status := BEAR,
                 ma_alignment := [Lit ''bear alignment MA5<MA10<MA20''],
                 trend_strength := Num 25\<rparr>) }
      else if flt m5 m10 \<and> fge m10 m20 then
        Some (result\<lparr>trend_status := WEAK_BEAR,
                ma_alignment := [Lit ''weak bear, MA5<MA10 but MA10>=MA20''],
                trend_strength := Num 40\<rparr>)
      else
        Some (result\<lparr>trend_status := CONSOLIDATION,
                ma_alignment := [Lit ''averages intertwined, trend unclear''],
                trend_strength := Num 50\<rparr>))"

text \<open>The bias of the price against one average: \<open>(price - ma) / ma * 100\<close>.\<close>

definition bias_of :: "pyfloat \<Rightarrow> pyfloat \<Rightarrow> pyfloat option" where
  "bias_of price ma = do { q \<leftarrow> pydiv (fsub price ma) ma; Some (fmul q (Num 100)) }"

definition calculate_bias :: "TrendAnalysisResult \<Rightarrow> TrendAnalysisResult option" where
  "calculate_bias result = do {
     let price = current_price result;
     result \<leftarrow> (if fgt (ma5 result) (Num 0)
       then do { b \<leftarrow> bias_of price (ma5 result); Some (result\<lparr>bias_ma5 := b\<rparr>) }
       else Some result);
     result \<leftarrow> (if fgt (ma10 result) (Num 0)
       then do { b \<leftarrow> bias_of price (ma10 result); Some (result\<lparr>bias_ma10 := b\<rparr>) }
       else Some result);
     result \<leftarrow> (if fgt (ma20 result) (Num 0)
       then do { b \<leftarrow> bias_of price (ma20 result); Some (result\<lparr>bias_ma20 := b\<rparr>) }
       else Some result);
     result \<leftarrow> (if fgt (ma60 result) (Num 0)
       then do { b \<leftarrow> bias_of price (ma60 result); Some (result\<lparr>bias_ma60 := b\<rparr>) }
       else Some result);
     result \<leftarrow> (if fgt (ma250 result) (Num 0)
       then do { b \<leftarrow> bias_of price (ma250 result); Some (result\<lparr>bias_ma250 := b\<rparr>) }
       else Some result);
     Some result
   }"

definition analyze_volume :: "frame \<Rightarrow> TrendAnalysisResult \<Rightarrow> TrendAnalysisResult option" where
  "analyze_volume df result =
     (if length df < 5 then Some result
      else do {
        latest \<leftarrow> iloc_neg df 1;
        let vol_5d_avg = fmean (slice_last_but_one 6 (col_volume df));
        let result = (if fgt vol_5d_avg (Num 0)
                      then result\<lparr>volume_ratio_5d := fdiv (Num (volume latest)) vol_5d_avg\<rparr>
                      else result);
        prev \<leftarrow> iloc_neg df 2;
        let prev_close = Num (close prev);
        let price_change =
              fmul (fdiv (fsub (Num (close latest)) prev_close) prev_close) (Num 100);
        Some (
          if fge (volume_ratio_5d result) (Num VOLUME_HEAVY_RATIO) then
            (if fgt price_change (Num 0)
             then result\<lparr>volume_status := HEAVY_VOLUME_UP,
                    volume_trend := [Lit ''rising on heavy volume, bulls are strong'']\<rparr>
             else result\<lparr>volume_status := HEAVY_VOLUME_DOWN,
                    volume_trend := [Lit ''falling on heavy volume, mind the risk'']\<rparr>)
          else if fle (volume_ratio_5d result) (Num VOLUME_SHRINK_RATIO) then
            (if fgt price_change (Num 0)
             then result\<lparr>volume_status := SHRINK_VOLUME_UP,
                    volume_trend := [Lit ''rising on shrinking volume, the advance lacks force'']\<rparr>
             else result\<lparr>volume_status := SHRINK_VOLUME_DOWN,
                    volume_trend :=
                      [Lit ''pullback on shrinking volume, a clear shake-out (good)'']\<rparr>)
          else result\<lparr>volume_status := NORMAL, volume_trend := [Lit ''normal volume'']\<rparr>)
      })"

definition analyze_support_resistance ::
    "frame \<Rightarrow> TrendAnalysisResult \<Rightarrow> TrendAnalysisResult option" where
  "analyze_support_resistance df result = do {
     let price = current_price result;
     result \<leftarrow> (if fgt (ma5 result) (Num 0)
       then do {
         ma5_distance \<leftarrow> pydiv (fabs (fsub price (ma5 result))) (ma5 result);
         Some (if fle ma5_distance (Num MA_SUPPORT_TOLERANCE) \<and> fge price (ma5 result)
               then result\<lparr>support_ma5 := True,
                      support_levels := support_levels result @ [ma5 result]\<rparr>
               else result) }
       else Some result);
     result \<leftarrow> (if fgt (ma10 result) (Num 0)
       then do {
         ma10_distance \<leftarrow> pydiv (fabs (fsub price (ma10 result))) (ma10 result);
         Some (if fle ma10_distance (Num MA_SUPPORT_TOLERANCE) \<and> fge price (ma10 result)
               then (let result = result\<lparr>support_ma10 := True\<rparr>
                     in if \<not> list_ex (\<lambda>x. feq x (ma10 result)) (support_levels result)
                        then result\<lparr>support_levels := support_levels result @ [ma10 result]\<rparr>
                        else result)
               else result) }
       else Some result);
     let result = (if fgt (ma20 result) (Num 0) \<and> fge price (ma20 result)
                   then result\<lparr>support_levels := support_levels result @ [ma20 result]\<rparr>
                   else result);
     let result = (if length df \<ge> 20
                   then (let recent_high = fmax_list (slice_last 20 (col_high df))
                         in if fgt recent_high price
                            then result\<lparr>resistance_levels :=
                                          resistance_levels result @ [recent_high]\<rparr>
                            else result)
                   else result);
     Some result
   }"

definition analyze_macd :: "frame \<Rightarrow> TrendAnalysisResult \<Rightarrow> TrendAnalysisResult option" where
  "analyze_macd df result =
     (if length df < MACD_SLOW then Some (result\<lparr>macd_signal := MSG_INSUFFICIENT\<rparr>)
      else do {
        latest \<leftarrow> iloc_neg df 1;
        prev \<leftarrow> iloc_neg df 2;
        dif \<leftarrow> row_item latest ''MACD_DIF'';
        let result = result\<lparr>macd_dif := dif\<rparr>;
        dea \<leftarrow> row_item latest ''MACD_DEA'';
        let result = result\<lparr>macd_dea := dea\<rparr>;
        bar \<leftarrow> row_item latest ''MACD_BAR'';
        let result = result\<lparr>macd_bar := bar\<rparr>;
        pdif \<leftarrow> row_item prev ''MACD_DIF'';
        pdea \<leftarrow> row_item prev ''MACD_DEA'';
        let prev_dif_dea = fsub pdif pdea;
        let curr_dif_dea = fsub (macd_dif result) (macd_dea result);
        let is_golden_cross = (fle prev_dif_dea (Num 0) \<and> fgt curr_dif_dea (Num 0));
        let is_death_cross = (fge prev_dif_dea (Num 0) \<and> flt curr_dif_dea (Num 0));
        prev_zero \<leftarrow> row_item prev ''MACD_DIF'';
        let curr_zero = macd_dif result;
        let is_crossing_up = (fle prev_zero (Num 0) \<and> fgt curr_zero (Num 0));
        let is_crossing_down = (fge prev_zero (Num 0) \<and> flt curr_zero (Num 0));
        Some (
          if is_golden_cross \<and> fgt curr_zero (Num 0) then
            result\<lparr>macd_status := GOLDEN_CROSS_ZERO,
              macd_signal := [Lit ''[star] golden cross above zero, strong buy signal!'']\<rparr>
          else if is_crossing_up then
            result\<lparr>macd_status := CROSSING_UP,
              macd_signal := [Lit ''[flash] DIF crosses up through zero, trend strengthening'']\<rparr>
          else if is_golden_cross then
            result\<lparr>macd_status := GOLDEN_CROSS,
              macd_signal := [Lit ''[ok] golden cross, trend upwards'']\<rparr>
          else if is_death_cross then
            result\<lparr>macd_status := DEATH_CROSS,
              macd_signal := [Lit ''[no] death cross, trend downwards'']\<rparr>
          else if is_crossing_down then
            result\<lparr>macd_status := CROSSING_DOWN,
              macd_signal := [Lit ''[warn] DIF crosses down through zero, trend weakening'']\<rparr>
          else if fgt (macd_dif result) (Num 0) \<and> fgt (macd_dea result) (Num 0) then
            result\<lparr>macd_status := BULLISH,
              macd_signal := [Lit ''[check] bull alignment, rise continues'']\<rparr>
          else if flt (macd_dif result) (Num 0) \<and> flt (macd_dea result) (Num 0) then
            result\<lparr>macd_status := BEARISH,
              macd_signal := [Lit ''[warn] bear alignment, fall continues'']\<rparr>
          else
            result\<lparr>macd_status := BULLISH,
              macd_signal := [Lit '' MACD neutral zone'']\<rparr>)
      })"

definition analyze_rsi :: "frame \<Rightarrow> TrendAnalysisResult \<Rightarrow> TrendAnalysisResult option" where
  "analyze_rsi df result =
     (if length df < RSI_LONG then Some (result\<lparr>rsi_signal := MSG_INSUFFICIENT\<rparr>)
      else do {
        latest \<leftarrow> iloc_neg df 1;
        v \<leftarrow> row_item latest (''RSI_'' @ str_nat RSI_SHORT);
        let result = result\<lparr>rsi_6 := v\<rparr>;
        v \<leftarrow> row_item latest (''RSI_'' @ str_nat RSI_MID);
        let result = result\<lparr>rsi_12 := v\<rparr>;
        v \<leftarrow> row_item latest (''RSI_'' @ str_nat RSI_LONG);
        let result = result\<lparr>rsi_24 := v\<rparr>;
        let rsi_mid = rsi_12 result;
        Some (
          if fgt rsi_mid (Num RSI_OVERBOUGHT) then
            result\<lparr>rsi_status := RS_OVERBOUGHT,
              rsi_signal := [Lit ''[warn] RSI overbought('', F1 rsi_mid,
                             Lit ''>70), high risk of a short-term pullback'']\<rparr>
          else if fgt rsi_mid (Num 60) then
            result\<lparr>rsi_status := RS_STRONG_BUY,
              rsi_signal := [Lit ''[ok] RSI strong('', F1 rsi_mid,
                             Lit ''), bulls have plenty of force'']\<rparr>
          else if fge rsi_mid (Num 40) then
            result\<lparr>rsi_status := RS_NEUTRAL,
              rsi_signal := [Lit '' RSI neutral('', F1 rsi_mid,
                             Lit ''), moving sideways'']\<rparr>
          else if fge rsi_mid (Num RSI_OVERSOLD) then
            result\<lparr>rsi_status := RS_WEAK,
              rsi_signal := [Lit ''[flash] RSI weak('', F1 rsi_mid,
                             Lit ''), watch for a rebound'']\<rparr>
          else
            result\<lparr>rsi_status := RS_OVERSOLD,
              rsi_signal := [Lit ''[star] RSI oversold('', F1 rsi_mid,
                             Lit ''<30), good chance of a rebound'']\<rparr>)
      })"

definition analyze_kdj :: "frame \<Rightarrow> TrendAnalysisResult \<Rightarrow> TrendAnalysisResult option" where
  "analyze_kdj df result =
     (if length df < KDJ_PERIOD then Some (result\<lparr>kdj_signal := MSG_INSUFFICIENT\<rparr>)
      else
        (let k = kdj_k result; d = kdj_d result; j = kdj_j result in
         Some (
           if fgt k (Num KDJ_OVERBOUGHT) \<and> fgt d (Num KDJ_OVERBOUGHT) then
             result\<lparr>kdj_signal := [Lit ''[warn] KDJ overbought(K:'', F1 k, Lit '', D:'', F1 d,
                                   Lit ''), risk of a short-term pullback'']\<rparr>
           else if flt k (Num KDJ_OVERSOLD) \<and> flt d (Num KDJ_OVERSOLD) then
             result\<lparr>kdj_signal := [Lit ''[star] KDJ oversold(K:'', F1 k, Lit '', D:'', F1 d,
                                   Lit ''), chance of a rebound'']\<rparr>
           else if fgt k d \<and> fgt j k then
             result\<lparr>kdj_signal := [Lit ''[ok] KDJ golden cross(K:'', F1 k, Lit ''>D:'', F1 d,
                                   Lit ''), trend strengthening'']\<rparr>
           else if flt k d \<and> flt j k then
             result\<lparr>kdj_signal := [Lit ''[no] KDJ death cross(K:'', F1 k, Lit ''<D:'', F1 d,
                                   Lit ''), trend weakening'']\<rparr>
           else
             result\<lparr>kdj_signal := [Lit '' KDJ neutral(K:'', F1 k, Lit '', D:'', F1 d,
                                   Lit '')'']\<rparr>)))"

definition analyze_bollinger_bands ::
    "frame \<Rightarrow> TrendAnalysisResult \<Rightarrow> TrendAnalysisResult option" where
  "analyze_bollinger_bands df result =
     (if length df < BB_PERIOD then Some (result\<lparr>bb_position := MSG_INSUFFICIENT\<rparr>)
      else do {
        let price = current_price result;
        let upper = bb_upper result;
        let middle = bb_middle result;
        let lower = bb_lower result;
        result \<leftarrow> (if fgt upper (Num 0) \<and> fgt lower (Num 0)
          then do { q \<leftarrow> pydiv (fsub upper lower) middle;
                    Some (result\<lparr>bb_width := fmul q (Num 100)\<rparr>) }
          else Some result);
        Some (
          if fge price upper then
            result\<lparr>bb_position := [Lit ''above the upper band (overbought zone)'']\<rparr>
          else if fge price middle then
            result\<lparr>bb_position := [Lit ''above the middle band (bull zone)'']\<rparr>
          else if fge price lower then
            result\<lparr>bb_position := [Lit ''below the middle band (bear zone)'']\<rparr>
          else
            result\<lparr>bb_position := [Lit ''below the lower band (oversold zone)'']\<rparr>)
      })"

definition momentum_msg :: "string \<Rightarrow> pyfloat \<Rightarrow> pyfloat \<Rightarrow> msg" where
  "momentum_msg label mom_5d mom_10d =
     [Lit label, Lit ''(5d:'', FS1 mom_5d, Lit ''%, 10d:'', FS1 mom_10d, Lit ''%)'']"

definition analyze_momentum :: "frame \<Rightarrow> TrendAnalysisResult \<Rightarrow> TrendAnalysisResult option" where
  "analyze_momentum df result =
     (if length df < MOMENTUM_LONG then Some (result\<lparr>momentum_signal := MSG_INSUFFICIENT\<rparr>)
      else
        (let mom_5d = momentum_5d result; mom_10d = momentum_10d result in
         Some (
           if fgt mom_5d (Num 3) \<and> fgt mom_10d (Num 5) then
             result\<lparr>momentum_signal := momentum_msg ''[rocket] strong rise'' mom_5d mom_10d\<rparr>
           else if fgt mom_5d (Num 1) \<and> fgt mom_10d (Num 2) then
             result\<lparr>momentum_signal := momentum_msg ''[up] mild rise'' mom_5d mom_10d\<rparr>
           else if flt mom_5d (Num (- 3)) \<and> flt mom_10d (Num (- 5)) then
             result\<lparr>momentum_signal := momentum_msg ''[down] accelerating fall'' mom_5d mom_10d\<rparr>
           else if flt mom_5d (Num (- 1)) \<and> flt mom_10d (Num (- 2)) then
             result\<lparr>momentum_signal := momentum_msg ''[warn] mild fall'' mom_5d mom_10d\<rparr>
           else
             result\<lparr>momentum_signal := momentum_msg ''[flat] moving sideways'' mom_5d mom_10d\<rparr>)))"

definition analyze_volume_ma :: "frame \<Rightarrow> TrendAnalysisResult \<Rightarrow> TrendAnalysisResult option" where
  "analyze_volume_ma df result =
     (if length df < 20 then Some (result\<lparr>vol_trend := MSG_INSUFFICIENT\<rparr>)
      else do {
        latest \<leftarrow> iloc_neg df 1;
        let current_vol = Num (volume latest);
        let v5 = vol_ma5 result;
        let v10 = vol_ma10 result;
        let v20 = vol_ma20 result;
        let result = (if fgt v5 (Num 0) then result\<lparr>vol_ratio_ma5 := fdiv current_vol v5\<rparr>
                      else result);
        Some (
          if fgt v5 v10 \<and> fgt v10 v20 then
            result\<lparr>vol_trend := [Lit ''volume averages in bull alignment, money is active'']\<rparr>
          else if flt v5 v10 \<and> flt v10 v20 then
            result\<lparr>vol_trend := [Lit ''volume averages in bear alignment, money is drying up'']\<rparr>
          else if fgt v5 v10 then
            result\<lparr>vol_trend := [Lit ''short-term volume strengthening'']\<rparr>
          else
            result\<lparr>vol_trend := [Lit ''volume averages balanced'']\<rparr>)
      })"

section \<open>The signal scorer\<close>

text \<open>
  The score tables of \<open>_generate_signal\<close>. Each table is total on its enumeration, so
  the default that the source passes to \<open>.get\<close> is never used.
\<close>

fun trend_scores :: "TrendStatus \<Rightarrow> int" where
  "trend_scores STRONG_BULL = 30"
| "trend_scores BULL = 26"
| "trend_scores WEAK_BULL = 18"
| "trend_scores CONSOLIDATION = 12"
| "trend_scores WEAK_BEAR = 8"
| "trend_scores BEAR = 4"
| "trend_scores STRONG_BEAR = 0"

fun volume_scores :: "VolumeStatus \<Rightarrow> int" where
  "volume_scores SHRINK_VOLUME_DOWN = 15"
| "volume_scores HEAVY_VOLUME_UP = 12"
| "volume_scores NORMAL = 10"
| "volume_scores SHRINK_VOLUME_UP = 6"
| "volume_scores HEAVY_VOLUME_DOWN = 0"

fun macd_scores :: "MACDStatus \<Rightarrow> int" where
  "macd_scores GOLDEN_CROSS_ZERO = 15"
| "macd_scores GOLDEN_CROSS = 12"
| "macd_scores CROSSING_UP = 10"
| "macd_scores BULLISH = 8"
| "macd_scores BEARISH = 2"
| "macd_scores CROSSING_DOWN = 0"
| "macd_scores DEATH_CROSS = 0"

fun rsi_scores :: "RSIStatus \<Rightarrow> int" where
  "rsi_scores RS_OVERSOLD = 10"
| "rsi_scores RS_STRONG_BUY = 8"
| "rsi_scores RS_NEUTRAL = 5"
| "rsi_scores RS_WEAK = 3"
| "rsi_scores RS_OVERBOUGHT = 0"

text \<open>
  The scorer runs six sections in turn, each adding to the running score and appending
  to the reasons and the risks. A section is a function on that triple.
\<close>

type_synonym tally = "int \<times> msg list \<times> msg list"

definition score_trend :: "TrendAnalysisResult \<Rightarrow> tally \<Rightarrow> tally" where
  "score_trend result = (\<lambda>(score, reasons, risks).
     let trend_score = trend_scores (trend_status result);
         score = score + trend_score
     in if trend_status result \<in> set [STRONG_BULL, BULL] then
          (score, reasons @ [[Lit ''[ok] '', Lit (TrendStatus_value (trend_status result)),
                              Lit '', go long with the trend'']], risks)
        else if trend_status result \<in> set [BEAR, STRONG_BEAR] then
          (score, reasons, risks @ [[Lit ''[warn] '', Lit (TrendStatus_value (trend_status result)),
                                     Lit '', not a time to go long'']])
        else (score, reasons, risks))"

definition score_bias :: "TrendAnalysisResult \<Rightarrow> tally \<Rightarrow> tally" where
  "score_bias result = (\<lambda>(score, reasons, risks).
     let bias = bias_ma5 result
     in if flt bias (Num 0) then
          (if fgt bias (Num (- 3)) then
             (score + 20, reasons @ [[Lit ''[ok] price slightly below MA5('', F1 bias,
                                      Lit ''%), pullback buy point'']], risks)
           else if fgt bias (Num (- 5)) then
             (score + 16, reasons @ [[Lit ''[ok] price pulls back to MA5('', F1 bias,
                                      Lit ''%), watch the support'']], risks)
           else
             (score + 8, reasons, risks @ [[Lit ''[warn] bias too large('', F1 bias,
                                            Lit ''%), may break down'']]))
        else if flt bias (Num 2) then
          (score + 18, reasons @ [[Lit ''[ok] price close to MA5('', F1 bias,
                                   Lit ''%), good time to enter'']], risks)
        else if flt bias (Num BIAS_THRESHOLD) then
          (score + 14, reasons @ [[Lit ''[flash] price slightly above MA5('', F1 bias,
                                   Lit ''%), a small position is possible'']], risks)
        else
          (score + 4, reasons, risks @ [[Lit ''[no] bias too high('', F1 bias,
                                         Lit ''%>5%), never chase the high!'']]))"

definition score_volume :: "TrendAnalysisResult \<Rightarrow> tally \<Rightarrow> tally" where
  "score_volume result = (\<lambda>(score, reasons, risks).
     let vol_score = volume_scores (volume_status result);
         score = score + vol_score
     in if volume_status result = SHRINK_VOLUME_DOWN then
          (score, reasons @ [[Lit ''[ok] pullback on shrinking volume, a shake-out'']], risks)
        else if volume_status result = HEAVY_VOLUME_DOWN then
          (score, reasons, risks @ [[Lit ''[warn] falling on heavy volume, mind the risk'']])
        else (score, reasons, risks))"

definition score_support :: "TrendAnalysisResult \<Rightarrow> tally \<Rightarrow> tally" where
  "score_support result = (\<lambda>(score, reasons, risks).
     let (score, reasons) = (if support_ma5 result
                             then (score + 5, reasons @ [[Lit ''[ok] MA5 support holds'']])
                             else (score, reasons));
         (score, reasons) = (if support_ma10 result
                             then (score + 5, reasons @ [[Lit ''[ok] MA10 support holds'']])
                             else (score, reasons))
     in (score, reasons, risks))"

definition score_macd :: "TrendAnalysisResult \<Rightarrow> tally \<Rightarrow> tally" where
  "score_macd result = (\<lambda>(score, reasons, risks).
     let macd_score = macd_scores (macd_status result);
         score = score + macd_score
     in if macd_status result \<in> set [GOLDEN_CROSS_ZERO, GOLDEN_CROSS] then
          (score, reasons @ [Lit ''[ok] '' # macd_signal result], risks)
        else if macd_status result \<in> set [DEATH_CROSS, CROSSING_DOWN] then
          (score, reasons, risks @ [Lit ''[warn] '' # macd_signal result])
        else (score, reasons @ [macd_signal result], risks))"

definition score_rsi :: "TrendAnalysisResult \<Rightarrow> tally \<Rightarrow> tally" where
  "score_rsi result = (\<lambda>(score, reasons, risks).
     let rsi_score = rsi_scores (rsi_status result);
         score = score + rsi_score
     in if rsi_status result \<in> set [RS_OVERSOLD, RS_STRONG_BUY] then
          (score, reasons @ [Lit ''[ok] '' # rsi_signal result], risks)
        else if rsi_status result = RS_OVERBOUGHT then
          (score, reasons, risks @ [Lit ''[warn] '' # rsi_signal result])
        else (score, reasons @ [rsi_signal result], risks))"

definition generate_signal :: "TrendAnalysisResult \<Rightarrow> TrendAnalysisResult" where
  "generate_signal result =
     (let (score, reasons, risks) =
            score_rsi result (score_macd result (score_support result
              (score_volume result (score_bias result (score_trend result (0, [], []))))));
          result = result\<lparr>signal_score := score, signal_reasons := reasons,
                     risk_factors := risks\<rparr>
      in if score \<ge> 75 \<and> trend_status result \<in> set [STRONG_BULL, BULL] then
           result\<lparr>buy_signal := STRONG_BUY\<rparr>
         else if score \<ge> 60 \<and> trend_status result \<in> set [STRONG_BULL, BULL, WEAK_BULL] then
           result\<lparr>buy_signal := BUY\<rparr>
         else if score \<ge> 45 then result\<lparr>buy_signal := HOLD\<rparr>
         else if score \<ge> 30 then result\<lparr>buy_signal := WAIT\<rparr>
         else if trend_status result \<in> set [BEAR, STRONG_BEAR] then
           result\<lparr>buy_signal := STRONG_SELL\<rparr>
         else result\<lparr>buy_signal := SELL\<rparr>)"

section \<open>The analysis\<close>

text \<open>
  \<open>analyze\<close> takes the reference of the caller's frame (\<open>None\<close> for Python's
  \<open>None\<close>) and the heap, and returns the result with the heap it leaves behind;
  \<open>None\<close> is a raised exception. Three stretches of its body are definitions of their
  own here: the seven calculator calls, the reading of the averages off the latest row, and
  the reading of the other indicators off the latest row.
\<close>

definition calculate_indicators :: "ref \<Rightarrow> heap \<Rightarrow> (ref \<times> heap) option" where
  "calculate_indicators df h = do {
     (df, h) \<leftarrow> calculate_mas df h;
     (df, h) \<leftarrow> calculate_macd df h;
     (df, h) \<leftarrow> calculate_rsi df h;
     (df, h) \<leftarrow> calculate_kdj df h;
     (df, h) \<leftarrow> calculate_bollinger_bands df h;
     (df, h) \<leftarrow> calculate_momentum df h;
     (df, h) \<leftarrow> calculate_volume_ma df h;
     Some (df, h)
   }"

definition read_averages :: "frame \<Rightarrow> TrendAnalysisResult \<Rightarrow> TrendAnalysisResult option" where
  "read_averages df result = do {
     latest \<leftarrow> iloc_neg df 1;
     let result = result\<lparr>current_price := Num (close latest)\<rparr>;
     v \<leftarrow> row_item latest ''MA5'';
     let result = result\<lparr>ma5 := v\<rparr>;
     v \<leftarrow> row_item latest ''MA10'';
     let result = result\<lparr>ma10 := v\<rparr>;
     v \<leftarrow> row_item latest ''MA20'';
     let result = result\<lparr>ma20 := v\<rparr>;
     let result = result\<lparr>ma60 := row_get latest ''MA60'' (Num 0)\<rparr>;
     let result = result\<lparr>ma250 := row_get latest ''MA250'' (Num 0)\<rparr>;
     Some result
   }"

definition read_indicators :: "frame \<Rightarrow> TrendAnalysisResult \<Rightarrow> TrendAnalysisResult option" where
  "read_indicators df result = do {
     latest \<leftarrow> iloc_neg df 1;
     let result = result\<lparr>kdj_k := row_get latest ''KDJ_K'' (Num 0)\<rparr>;
     let result = result\<lparr>kdj_d := row_get latest ''KDJ_D'' (Num 0)\<rparr>;
     let result = result\<lparr>kdj_j := row_get latest ''KDJ_J'' (Num 0)\<rparr>;
     let result = result\<lparr>bb_upper := row_get latest ''BB_UPPER'' (Num 0)\<rparr>;
     let result = result\<lparr>bb_middle := row_get latest ''BB_MIDDLE'' (Num 0)\<rparr>;
     let result = result\<lparr>bb_lower := row_get latest ''BB_LOWER'' (Num 0)\<rparr>;
     let result = result\<lparr>momentum_5d := row_get latest ''MOMENTUM_5D'' (Num 0)\<rparr>;
     let result = result\<lparr>momentum_10d := row_get latest ''MOMENTUM_10D'' (Num 0)\<rparr>;
     let result = result\<lparr>vol_ma5 := row_get latest ''VOL_MA5'' (Num 0)\<rparr>;
     let result = result\<lparr>vol_ma10 := row_get latest ''VOL_MA10'' (Num 0)\<rparr>;
     let result = result\<lparr>vol_ma20 := row_get latest ''VOL_MA20'' (Num 0)\<rparr>;
     Some result
   }"

definition analyze ::
    "ref option \<Rightarrow> string \<Rightarrow> heap \<Rightarrow> (TrendAnalysisResult \<times> heap) option" where
  "analyze df0 c h0 =
     (let result = default_result c in
      if df0 = None \<or> h0 ! the df0 = [] \<or> length (h0 ! the df0) < 20 then
        Some (result\<lparr>risk_factors := risk_factors result @ [MSG_INSUFFICIENT_ANALYSIS]\<rparr>, h0)
      else do {
        let (df, h) = df_sort_values_date (the df0) h0;
        let (df, h) = df_reset_index df h;
        (df, h) \<leftarrow> calculate_indicators df h;
        result \<leftarrow> read_averages (h ! df) result;
        result \<leftarrow> analyze_trend (h ! df) result;
        result \<leftarrow> calculate_bias result;
        result \<leftarrow> read_indicators (h ! df) result;
        result \<leftarrow> analyze_volume (h ! df) result;
        result \<leftarrow> analyze_support_resistance (h ! df) result;
        result \<leftarrow> analyze_macd (h ! df) result;
        result \<leftarrow> analyze_rsi (h ! df) result;
        result \<leftarrow> analyze_kdj (h ! df) result;
        result \<leftarrow> analyze_bollinger_bands (h ! df) result;
        result \<leftarrow> analyze_momentum (h ! df) result;
        result \<leftarrow> analyze_volume_ma (h ! df) result;
        let result = generate_signal result;
        Some (result, h)
      })"

text \<open>\<open>analyze_stock\<close>: a fresh analyzer, then \<open>analyze\<close>.\<close>

definition analyze_stock ::
    "ref option \<Rightarrow> string \<Rightarrow> heap \<Rightarrow> (TrendAnalysisResult \<times> heap) option" where
  "analyze_stock df c h = analyze df c h"

section \<open>Derived notions\<close>

text \<open>
  The sub-score of the bias section of the scorer, by itself, and the cascade that turns a
  score and a trend into the final action, as the specification words it.
\<close>

definition bias_points :: "pyfloat \<Rightarrow> int" where
  "bias_points bias =
     (if flt bias (Num 0)
      then (if fgt bias (Num (- 3)) then 20 else if fgt bias (Num (- 5)) then 16 else 8)
      else if flt bias (Num 2) then 18 else if flt bias (Num BIAS_THRESHOLD) then 14 else 4)"

definition signal_cascade :: "int \<Rightarrow> TrendStatus \<Rightarrow> BuySignal" where
  "signal_cascade score trend =
     (if score \<ge> 75 \<and> (trend = STRONG_BULL \<or> trend = BULL) then STRONG_BUY
      else if score \<ge> 60 \<and> (trend = STRONG_BULL \<or> trend = BULL \<or> trend = WEAK_BULL) then BUY
      else if score \<ge> 45 then HOLD
      else if score \<ge> 30 then WAIT
      else if trend = BEAR \<or> trend = STRONG_BEAR then STRONG_SELL
      else SELL)"

text \<open>
  What each calculator writes, as a function from the frame it is given to the frame it
  returns; \<open>indicators_frame\<close> is the frame the classifiers read.
\<close>

definition mas_frame :: "frame \<Rightarrow> frame" where
  "mas_frame f =
     (let c = col_close f;
          m20 = rolling 20 fmean c;
          m60 = (if length f \<ge> 60 then rolling 60 fmean c else m20);
          m250 = (if length f \<ge> 250 then rolling 250 fmean c else m60)
      in setitem_rows ''MA250'' m250 (setitem_rows ''MA60'' m60 (setitem_rows ''MA20'' m20
           (setitem_rows ''MA10'' (rolling 10 fmean c) (setitem_rows ''MA5'' (rolling 5 fmean c) f)))))"

definition macd_frame :: "frame \<Rightarrow> frame" where
  "macd_frame f =
     (let c = col_close f;
          dif = map2 fsub (ewm_mean MACD_FAST c) (ewm_mean MACD_SLOW c);
          dea = ewm_mean MACD_SIGNAL dif;
          bar = map (\<lambda>x. fmul x (Num 2)) (map2 fsub dif dea)
      in setitem_rows ''MACD_BAR'' bar (setitem_rows ''MACD_DEA'' dea
           (setitem_rows ''MACD_DIF'' dif f)))"

definition rsi_frame :: "frame \<Rightarrow> frame" where
  "rsi_frame f =
     (let c = col_close f
      in setitem_rows ''RSI_24'' (rsi_series RSI_LONG c)
           (setitem_rows ''RSI_12'' (rsi_series RSI_MID c)
              (setitem_rows ''RSI_6'' (rsi_series RSI_SHORT c) f)))"

definition kdj_frame :: "frame \<Rightarrow> frame" where
  "kdj_frame f =
     (let low_min = rolling KDJ_PERIOD fmin_list (col_low f);
          high_max = rolling KDJ_PERIOD fmax_list (col_high f);
          denominator = replace_zero_nan (map2 fsub high_max low_min);
          rsv = fillna (Num 50) (map (\<lambda>x. fmul x (Num 100))
                  (map2 fdiv (map2 fsub (col_close f) low_min) denominator));
          k = ewm_mean KDJ_K_PERIOD rsv;
          d = ewm_mean KDJ_D_PERIOD k;
          j = map2 fsub (map (\<lambda>x. fmul (Num 3) x) k) (map (\<lambda>x. fmul (Num 2) x) d)
      in setitem_rows ''KDJ_J'' j (setitem_rows ''KDJ_D'' d (setitem_rows ''KDJ_K'' k f)))"

definition bb_frame :: "frame \<Rightarrow> frame" where
  "bb_frame f =
     (let mid = rolling BB_PERIOD fmean (col_close f);
          std = rolling BB_PERIOD fstd (col_close f);
          band = map (\<lambda>s. fmul s (Num BB_STD_DEV)) std
      in setitem_rows ''BB_LOWER'' (map2 fsub mid band)
           (setitem_rows ''BB_UPPER'' (map2 fadd mid band)
              (setitem_rows ''BB_MIDDLE'' mid f)))"

definition momentum_frame :: "frame \<Rightarrow> frame" where
  "momentum_frame f =
     setitem_rows ''MOMENTUM_10D''
       (map (\<lambda>x. fmul x (Num 100)) (pct_change MOMENTUM_LONG (col_close f)))
       (setitem_rows ''MOMENTUM_5D''
          (map (\<lambda>x. fmul x (Num 100)) (pct_change MOMENTUM_SHORT (col_close f))) f)"

definition volume_ma_frame :: "frame \<Rightarrow> frame" where
  "volume_ma_frame f =
     setitem_rows ''VOL_MA20'' (rolling 20 fmean (col_volume f))
       (setitem_rows ''VOL_MA10'' (rolling 10 fmean (col_volume f))
          (setitem_rows ''VOL_MA5'' (rolling 5 fmean (col_volume f)) f))"

definition indicators_frame :: "frame \<Rightarrow> frame" where
  "indicators_frame f =
     volume_ma_frame (momentum_frame (bb_frame (kdj_frame (rsi_frame (macd_frame (mas_frame f))))))"

definition indicator_names :: "string list" where
  "indicator_names = [''MA5'', ''MA10'', ''MA20'', ''MA60'', ''MA250'', ''MACD_DIF'', ''MACD_DEA'',
     ''MACD_BAR'', ''RSI_6'', ''RSI_12'', ''RSI_24'', ''KDJ_K'', ''KDJ_D'', ''KDJ_J'',
     ''BB_MIDDLE'', ''BB_UPPER'', ''BB_LOWER'', ''MOMENTUM_5D'', ''MOMENTUM_10D'',
     ''VOL_MA5'', ''VOL_MA10'', ''VOL_MA20'']"

definition frame_ok :: "frame \<Rightarrow> bool" where
  "frame_ok f = list_all (\<lambda>r. list_all (\<lambda>name. ind r name \<noteq> None) indicator_names) f"

definition bb_ok :: "TrendAnalysisResult \<Rightarrow> bool" where
  "bb_ok r = (\<exists>m s. 0 \<le> s \<and> bb_middle r = Num m \<and> bb_upper r = Num (m + s * 2)
                 \<and> bb_lower r = Num (m - s * 2))"

definition bb_fields :: "TrendAnalysisResult \<Rightarrow> pyfloat \<times> pyfloat \<times> pyfloat" where
  "bb_fields r = (bb_upper r, bb_middle r, bb_lower r)"

text \<open>Sample data: a series of \<open>n\<close> bars on consecutive days, all at one price.\<close>

definition flat_bar :: "nat \<Rightarrow> bar" where
  "flat_bar i = \<lparr>date = int i, bar_open = 10, high = 10, low = 10, close = 10, volume = 1000,
                 ind = Map.empty\<rparr>"

definition flat_frame :: "nat \<Rightarrow> frame" where
  "flat_frame n = map flat_bar [0..<n]"

text \<open>
  The quantities behind the RSI of a series of closes: the gain and the loss of each bar
  against the bar before (the first bar has neither), the mean of the last \<open>w\<close> entries
  up to row \<open>i\<close>, and the RSI of a mean gain and a mean loss.
\<close>

definition gains :: "real list \<Rightarrow> real list" where
  "gains xs = (case xs of [] \<Rightarrow> []
               | x # rest \<Rightarrow> 0 # map (\<lambda>d. if d > 0 then d else 0) (map2 (-) rest xs))"

definition losses :: "real list \<Rightarrow> real list" where
  "losses xs = (case xs of [] \<Rightarrow> []
                | x # rest \<Rightarrow> 0 # map (\<lambda>d. if d < 0 then - d else 0) (map2 (-) rest xs))"

definition window_mean :: "nat \<Rightarrow> nat \<Rightarrow> real list \<Rightarrow> real" where
  "window_mean w i ys = sum_list (take w (drop (i + 1 - w) ys)) / real w"


text \<open>
  For the trend classifier: the spread as \<open>_analyze_trend\<close> computes it, the spread of
  bar \<open>j\<close> and the strong-bull test as the specification words them (against the bar
  five bars before the latest), the classifier run on a series by itself, and sample
  series.
\<close>

definition spread_pct :: "pyfloat \<Rightarrow> pyfloat \<Rightarrow> pyfloat" where
  "spread_pct a b = (if fgt b (Num 0) then fmul (fdiv (fsub a b) b) (Num 100) else Num 0)"

definition spec_spread :: "real list \<Rightarrow> nat \<Rightarrow> real" where
  "spec_spread cs j =
     100 * (window_mean 5 j cs - window_mean 20 j cs) / window_mean 20 j cs"

definition spec_strong_bull :: "real list \<Rightarrow> bool" where
  "spec_strong_bull cs =
     (let latest = length cs - 1;
          cur = spec_spread cs latest;
          old = spec_spread cs (latest - 5)
      in cur > old \<and> cur > 5)"

definition trend_of_series :: "frame \<Rightarrow> TrendStatus option" where
  "trend_of_series f = do {
     (df, h) \<leftarrow> calculate_mas 0 [f];
     r \<leftarrow> read_averages (h ! df) (default_result []);
     r \<leftarrow> analyze_trend (h ! df) r;
     Some (trend_status r)
   }"

definition series_frame :: "real list \<Rightarrow> frame" where
  "series_frame cs =
     map (\<lambda>i. \<lparr>date = int i, bar_open = cs ! i, high = cs ! i, low = cs ! i, close = cs ! i,
                volume = 1000, ind = Map.empty\<rparr>) [0..<length cs]"

definition bear_sample :: "real list" where
  "bear_sample = [10, 10, 10, 10, 10, 10, 10, 10, 10, 10, 10, 10, 10, 10, 10, 10, 10, 10, 10, 10,
                  1, 11, 11, 11, 11]"

definition trend_sample :: "real list" where
  "trend_sample = [10, 10, 10, 10, 10, 10, 10, 10, 10, 10, 10, 10, 10, 10, 10, 10, 10, 10, 10, 10,
                   30, 9, 9, 9, 9]"

text \<open>The three MACD series of a series of closes, and a sample series.\<close>

definition macd_dif_series :: "pyfloat list \<Rightarrow> pyfloat list" where
  "macd_dif_series c = map2 fsub (ewm_mean MACD_FAST c) (ewm_mean MACD_SLOW c)"

definition macd_dea_series :: "pyfloat list \<Rightarrow> pyfloat list" where
  "macd_dea_series c = ewm_mean MACD_SIGNAL (macd_dif_series c)"

definition macd_bar_series :: "pyfloat list \<Rightarrow> pyfloat list" where
  "macd_bar_series c =
     map (\<lambda>x. fmul x (Num 2)) (map2 fsub (macd_dif_series c) (macd_dea_series c))"

definition macd_sample :: "real list" where
  "macd_sample = [100, 100, 100, 100, 100, 100, 100, 100, 100, 100, 100, 100, 100, 100, 100, 100,
                  100, 100, 100, 100, 100, 50, 50, 50, 200, 200]"

section \<open>Frames and calculators\<close>

lemma length_setitem_rows [simp]: "length (setitem_rows name xs f) = length f"
  by (simp add: setitem_rows_def)

lemma nth_setitem_rows:
  "i < length f \<Longrightarrow>
     setitem_rows name xs f ! i = (f ! i)\<lparr>ind := (ind (f ! i))(name \<mapsto> nth_or_nan xs i)\<rparr>"
  by (simp add: setitem_rows_def)

lemma col_close_setitem [simp]: "col_close (setitem_rows name xs f) = col_close f"
  by (rule nth_equalityI) (simp_all add: col_close_def nth_setitem_rows)

lemma col_high_setitem [simp]: "col_high (setitem_rows name xs f) = col_high f"
  by (rule nth_equalityI) (simp_all add: col_high_def nth_setitem_rows)

lemma col_low_setitem [simp]: "col_low (setitem_rows name xs f) = col_low f"
  by (rule nth_equalityI) (simp_all add: col_low_def nth_setitem_rows)

lemma col_volume_setitem [simp]: "col_volume (setitem_rows name xs f) = col_volume f"
  by (rule nth_equalityI) (simp_all add: col_volume_def nth_setitem_rows)

lemma length_cols [simp]:
  "length (col_close f) = length f" "length (col_high f) = length f"
  "length (col_low f) = length f" "length (col_volume f) = length f"
  by (simp_all add: col_close_def col_high_def col_low_def col_volume_def)

lemma getitem_setitem_same:
  "length xs = length f \<Longrightarrow> df_getitem (setitem_rows name xs f) name = Some xs"
  unfolding df_getitem_def
  by (auto simp: list_all_length nth_setitem_rows nth_or_nan_def intro!: nth_equalityI)

lemma getitem_setitem_other:
  "name' \<noteq> name \<Longrightarrow> df_getitem (setitem_rows name xs f) name' = df_getitem f name'"
  unfolding df_getitem_def
  by (auto simp: list_all_length nth_setitem_rows intro!: nth_equalityI)

lemma length_rolling [simp]: "length (rolling w agg xs) = length xs"
  by (simp add: rolling_def)

lemma length_ewm_from [simp]: "length (ewm_from a y xs) = length xs"
  by (induction xs arbitrary: y) (simp_all add: Let_def)

lemma length_ewm_mean [simp]: "length (ewm_mean n xs) = length xs"
  by (simp add: ewm_mean_def split: list.splits)

lemma length_series_diff [simp]: "length (series_diff xs) = length xs"
  by (simp add: series_diff_def split: list.splits)

lemma length_series_shift [simp]: "length (series_shift n xs) = length xs"
  by (simp add: series_shift_def)

lemma length_pct_change [simp]: "length (pct_change n xs) = length xs"
  by (simp add: pct_change_def)

lemma length_series_where [simp]: "length (series_where c d xs) = length xs"
  by (simp add: series_where_def)

lemma length_fillna [simp]: "length (fillna v xs) = length xs"
  by (simp add: fillna_def)

lemma length_replace_zero_nan [simp]: "length (replace_zero_nan xs) = length xs"
  by (simp add: replace_zero_nan_def)

lemma length_rsi_series [simp]: "length (rsi_series n xs) = length xs"
  by (simp add: rsi_series_def Let_def)

lemma df_copy_eq: "df_copy p h = (length h, h @ [h ! p])"
  by (simp add: df_copy_def df_new_def)

lemma df_setitem_fresh [simp]:
  "df_setitem (length h) name xs (h @ [f]) = h @ [setitem_rows name xs f]"
  by (simp add: df_setitem_def)

lemma calculate_mas_frame:
  "calculate_mas p h = Some (length h, h @ [mas_frame (h ! p)])"
  by (simp add: calculate_mas_def df_copy_eq mas_frame_def Let_def
      getitem_setitem_same getitem_setitem_other)

lemma str_nat_periods:
  "str_nat RSI_SHORT = ''6''" "str_nat RSI_MID = ''12''" "str_nat RSI_LONG = ''24''"
  by code_simp+

lemma calculate_macd_frame:
  "calculate_macd p h = Some (length h, h @ [macd_frame (h ! p)])"
  by (simp add: calculate_macd_def df_copy_eq macd_frame_def Let_def
      getitem_setitem_same getitem_setitem_other)

lemma calculate_rsi_frame:
  "calculate_rsi p h = Some (length h, h @ [rsi_frame (h ! p)])"
  by (simp add: calculate_rsi_def df_copy_eq rsi_frame_def Let_def str_nat_periods)

lemma calculate_kdj_frame:
  "calculate_kdj p h = Some (length h, h @ [kdj_frame (h ! p)])"
  by (simp add: calculate_kdj_def df_copy_eq kdj_frame_def Let_def
      getitem_setitem_same getitem_setitem_other)

lemma calculate_bollinger_bands_frame:
  "calculate_bollinger_bands p h = Some (length h, h @ [bb_frame (h ! p)])"
  by (simp add: calculate_bollinger_bands_def df_copy_eq bb_frame_def Let_def
      getitem_setitem_same getitem_setitem_other)

lemma calculate_momentum_frame:
  "calculate_momentum p h = Some (length h, h @ [momentum_frame (h ! p)])"
  by (simp add: calculate_momentum_def df_copy_eq momentum_frame_def Let_def)

lemma calculate_volume_ma_frame:
  "calculate_volume_ma p h = Some (length h, h @ [volume_ma_frame (h ! p)])"
  by (simp add: calculate_volume_ma_def df_copy_eq volume_ma_frame_def Let_def)

lemma calculate_indicators_frame:
  "\<exists>fs. calculate_indicators p h = Some (length h + 6, h @ fs @ [indicators_frame (h ! p)])
        \<and> length fs = 6"
proof -
  let ?f1 = "mas_frame (h ! p)"
  let ?f2 = "macd_frame ?f1"
  let ?f3 = "rsi_frame ?f2"
  let ?f4 = "kdj_frame ?f3"
  let ?f5 = "bb_frame ?f4"
  let ?f6 = "momentum_frame ?f5"
  let ?f7 = "volume_ma_frame ?f6"
  have "calculate_indicators p h = Some (length h + 6, h @ [?f1, ?f2, ?f3, ?f4, ?f5, ?f6] @ [?f7])"
    unfolding calculate_indicators_def
    by (simp add: calculate_mas_frame calculate_macd_frame calculate_rsi_frame
        calculate_kdj_frame calculate_bollinger_bands_frame calculate_momentum_frame
        calculate_volume_ma_frame nth_append)
  then show ?thesis unfolding indicators_frame_def by (intro exI[of _ "[?f1, ?f2, ?f3, ?f4, ?f5, ?f6]"]) simp
qed

lemma ind_setitem:
  "i < length f \<Longrightarrow>
     ind (setitem_rows name xs f ! i) name' =
       (if name' = name then Some (nth_or_nan xs i) else ind (f ! i) name')"
  by (simp add: nth_setitem_rows)

lemma base_setitem:
  "i < length f \<Longrightarrow> close (setitem_rows name xs f ! i) = close (f ! i)"
  "i < length f \<Longrightarrow> volume (setitem_rows name xs f ! i) = volume (f ! i)"
  "i < length f \<Longrightarrow> high (setitem_rows name xs f ! i) = high (f ! i)"
  by (simp_all add: nth_setitem_rows)

lemmas frame_defs = mas_frame_def macd_frame_def rsi_frame_def kdj_frame_def bb_frame_def
  momentum_frame_def volume_ma_frame_def

lemma length_frames [simp]:
  "length (mas_frame f) = length f" "length (macd_frame f) = length f"
  "length (rsi_frame f) = length f" "length (kdj_frame f) = length f"
  "length (bb_frame f) = length f" "length (momentum_frame f) = length f"
  "length (volume_ma_frame f) = length f"
  by (simp_all add: frame_defs Let_def)

lemma length_indicators_frame [simp]: "length (indicators_frame f) = length f"
  by (simp add: indicators_frame_def)

lemma col_close_frames [simp]:
  "col_close (mas_frame f) = col_close f" "col_close (macd_frame f) = col_close f"
  "col_close (rsi_frame f) = col_close f" "col_close (kdj_frame f) = col_close f"
  "col_close (bb_frame f) = col_close f" "col_close (momentum_frame f) = col_close f"
  "col_close (volume_ma_frame f) = col_close f"
  by (simp_all add: frame_defs Let_def)

lemma col_volume_frames [simp]:
  "col_volume (mas_frame f) = col_volume f" "col_volume (macd_frame f) = col_volume f"
  "col_volume (rsi_frame f) = col_volume f" "col_volume (kdj_frame f) = col_volume f"
  "col_volume (bb_frame f) = col_volume f" "col_volume (momentum_frame f) = col_volume f"
  "col_volume (volume_ma_frame f) = col_volume f"
  by (simp_all add: frame_defs Let_def)

lemma col_high_frames [simp]:
  "col_high (mas_frame f) = col_high f" "col_high (macd_frame f) = col_high f"
  "col_high (rsi_frame f) = col_high f" "col_high (kdj_frame f) = col_high f"
  "col_high (bb_frame f) = col_high f" "col_high (momentum_frame f) = col_high f"
  "col_high (volume_ma_frame f) = col_high f"
  by (simp_all add: frame_defs Let_def)

lemma ind_indicators_defined:
  "i < length f \<Longrightarrow>
   name \<in> set [''MA5'', ''MA10'', ''MA20'', ''MA60'', ''MA250'', ''MACD_DIF'', ''MACD_DEA'',
     ''MACD_BAR'', ''RSI_6'', ''RSI_12'', ''RSI_24'', ''KDJ_K'', ''KDJ_D'', ''KDJ_J'',
     ''BB_MIDDLE'', ''BB_UPPER'', ''BB_LOWER'', ''MOMENTUM_5D'', ''MOMENTUM_10D'',
     ''VOL_MA5'', ''VOL_MA10'', ''VOL_MA20''] \<Longrightarrow>
   ind (indicators_frame f ! i) name \<noteq> None"
  by (auto simp: indicators_frame_def frame_defs Let_def ind_setitem)

lemma base_indicators:
  "i < length f \<Longrightarrow> close (indicators_frame f ! i) = close (f ! i)"
  "i < length f \<Longrightarrow> volume (indicators_frame f ! i) = volume (f ! i)"
  "i < length f \<Longrightarrow> high (indicators_frame f ! i) = high (f ! i)"
  by (simp_all add: indicators_frame_def frame_defs Let_def base_setitem)

lemma col_indicators [simp]:
  "col_close (indicators_frame f) = col_close f"
  "col_volume (indicators_frame f) = col_volume f"
  "col_high (indicators_frame f) = col_high f"
  by (simp_all add: indicators_frame_def)

lemma rolling_nth:
  "i < length xs \<Longrightarrow>
     rolling w agg xs ! i = (if i + 1 < w then NaN else agg (take w (drop (i + 1 - w) xs)))"
  by (simp add: rolling_def)

lemma finite_values_map_Num [simp]: "finite_values (map Num rs) = Some rs"
  by (induction rs) simp_all

lemma fmean_Num: "rs \<noteq> [] \<Longrightarrow> fmean (map Num rs) = Num (sum_list rs / real (length rs))"
  by (simp add: fmean_def)

lemma fstd_Num:
  "2 \<le> length rs \<Longrightarrow>
     fstd (map Num rs) =
       Num (sqrt (sum_list (map (\<lambda>x. (x - sum_list rs / real (length rs))\<^sup>2) rs)
                  / real (length rs - 1)))"
  by (simp add: fstd_def Let_def)

lemma col_close_Num: "col_close f = map Num (map close f)"
  by (simp add: col_close_def)

lemma bb_frame_row:
  assumes "19 \<le> i" "i < length f"
  shows "\<exists>m s. 0 \<le> s
           \<and> ind (bb_frame f ! i) ''BB_MIDDLE'' = Some (Num m)
           \<and> ind (bb_frame f ! i) ''BB_UPPER'' = Some (Num (m + s * 2))
           \<and> ind (bb_frame f ! i) ''BB_LOWER'' = Some (Num (m - s * 2))"
proof -
  define w where "w = take 20 (drop (i - 19) (map close f))"
  have lw: "length w = 20" using assms by (simp add: w_def)
  have win: "take 20 (drop (i - 19) (col_close f)) = map Num w"
    by (simp add: w_def col_close_Num take_map drop_map)
  have ne: "w \<noteq> []" using lw by auto
  have mid: "rolling BB_PERIOD fmean (col_close f) ! i = Num (sum_list w / 20)"
    using assms lw ne by (simp add: rolling_nth BB_PERIOD_def win fmean_Num)
  define s where "s = sqrt (sum_list (map (\<lambda>x. (x - sum_list w / 20)\<^sup>2) w) / 19)"
  have std: "rolling BB_PERIOD fstd (col_close f) ! i = Num s"
    using assms lw by (simp add: rolling_nth BB_PERIOD_def win fstd_Num s_def)
  have s0: "0 \<le> s" unfolding s_def by (intro real_sqrt_ge_zero divide_nonneg_nonneg sum_list_nonneg) auto
  show ?thesis
    using assms s0 mid std
    by (intro exI[of _ "sum_list w / 20"] exI[of _ s])
       (simp add: bb_frame_def Let_def ind_setitem nth_or_nan_def BB_STD_DEV_def fsub_def)
qed

section \<open>The scorer\<close>

lemma tally_trend: "fst (score_trend r (s, a, b)) = s + trend_scores (trend_status r)"
  by (simp add: score_trend_def Let_def)

lemma tally_bias: "fst (score_bias r (s, a, b)) = s + bias_points (bias_ma5 r)"
  by (simp add: score_bias_def bias_points_def Let_def)

lemma tally_volume: "fst (score_volume r (s, a, b)) = s + volume_scores (volume_status r)"
  by (simp add: score_volume_def Let_def)

lemma tally_support:
  "fst (score_support r (s, a, b)) =
     s + (if support_ma5 r then 5 else 0) + (if support_ma10 r then 5 else 0)"
  by (simp add: score_support_def Let_def)

lemma tally_macd: "fst (score_macd r (s, a, b)) = s + macd_scores (macd_status r)"
  by (simp add: score_macd_def Let_def)

lemma tally_rsi: "fst (score_rsi r (s, a, b)) = s + rsi_scores (rsi_status r)"
  by (simp add: score_rsi_def Let_def)

lemma trend_scores_range: "0 \<le> trend_scores t \<and> trend_scores t \<le> 30"
  by (cases t) simp_all

lemma volume_scores_range: "0 \<le> volume_scores t \<and> volume_scores t \<le> 15"
  by (cases t) simp_all

lemma macd_scores_range: "0 \<le> macd_scores t \<and> macd_scores t \<le> 15"
  by (cases t) simp_all

lemma rsi_scores_range: "0 \<le> rsi_scores t \<and> rsi_scores t \<le> 10"
  by (cases t) simp_all

lemma bias_points_range: "4 \<le> bias_points b \<and> bias_points b \<le> 20"
  by (simp add: bias_points_def)

lemma generate_signal_tally:
  obtains s a b where
    "score_rsi r (score_macd r (score_support r (score_volume r (score_bias r
       (score_trend r (0, [], [])))))) = (s, a, b)"
    "s = trend_scores (trend_status r) + bias_points (bias_ma5 r)
         + volume_scores (volume_status r)
         + ((if support_ma5 r then 5 else 0) + (if support_ma10 r then 5 else 0))
         + macd_scores (macd_status r) + rsi_scores (rsi_status r)"
proof -
  obtain s1 a1 b1 where t1: "score_trend r (0, [], []) = (s1, a1, b1)" by (metis prod_cases3)
  obtain s2 a2 b2 where t2: "score_bias r (s1, a1, b1) = (s2, a2, b2)" by (metis prod_cases3)
  obtain s3 a3 b3 where t3: "score_volume r (s2, a2, b2) = (s3, a3, b3)" by (metis prod_cases3)
  obtain s4 a4 b4 where t4: "score_support r (s3, a3, b3) = (s4, a4, b4)" by (metis prod_cases3)
  obtain s5 a5 b5 where t5: "score_macd r (s4, a4, b4) = (s5, a5, b5)" by (metis prod_cases3)
  obtain s6 a6 b6 where t6: "score_rsi r (s5, a5, b5) = (s6, a6, b6)" by (metis prod_cases3)
  have "s1 = trend_scores (trend_status r)" using tally_trend[of r 0 "[]" "[]"] t1 by simp
  moreover have "s2 = s1 + bias_points (bias_ma5 r)" using tally_bias[of r s1 a1 b1] t2 by simp
  moreover have "s3 = s2 + volume_scores (volume_status r)"
    using tally_volume[of r s2 a2 b2] t3 by simp
  moreover have "s4 = s3 + (if support_ma5 r then 5 else 0) + (if support_ma10 r then 5 else 0)"
    using tally_support[of r s3 a3 b3] t4 by simp
  moreover have "s5 = s4 + macd_scores (macd_status r)" using tally_macd[of r s4 a4 b4] t5 by simp
  moreover have "s6 = s5 + rsi_scores (rsi_status r)" using tally_rsi[of r s5 a5 b5] t6 by simp
  ultimately show ?thesis using that[of s6 a6 b6] t1 t2 t3 t4 t5 t6 by simp
qed

lemma signal_score_sum:
  "signal_score (generate_signal r) =
     trend_scores (trend_status r) + bias_points (bias_ma5 r) + volume_scores (volume_status r)
     + ((if support_ma5 r then 5 else 0) + (if support_ma10 r then 5 else 0))
     + macd_scores (macd_status r) + rsi_scores (rsi_status r)"
proof -
  obtain s a b where t:
    "score_rsi r (score_macd r (score_support r (score_volume r (score_bias r
       (score_trend r (0, [], [])))))) = (s, a, b)"
    "s = trend_scores (trend_status r) + bias_points (bias_ma5 r)
         + volume_scores (volume_status r)
         + ((if support_ma5 r then 5 else 0) + (if support_ma10 r then 5 else 0))
         + macd_scores (macd_status r) + rsi_scores (rsi_status r)"
    by (rule generate_signal_tally)
  have "signal_score (generate_signal r) = s"
    by (simp add: generate_signal_def t(1) Let_def)
  then show ?thesis using t(2) by simp
qed

lemma signal_score_range:
  "4 \<le> signal_score (generate_signal r) \<and> signal_score (generate_signal r) \<le> 100"
  using trend_scores_range[of "trend_status r"] bias_points_range[of "bias_ma5 r"]
    volume_scores_range[of "volume_status r"] macd_scores_range[of "macd_status r"]
    rsi_scores_range[of "rsi_status r"]
  by (simp add: signal_score_sum)

lemma generate_signal_trend: "trend_status (generate_signal r) = trend_status r"
proof -
  obtain s a b where t:
    "score_rsi r (score_macd r (score_support r (score_volume r (score_bias r
       (score_trend r (0, [], [])))))) = (s, a, b)"
    by (metis prod_cases3)
  show ?thesis
    by (simp add: generate_signal_def t Let_def)
qed

lemma generate_signal_cascade:
  "buy_signal (generate_signal r) =
     signal_cascade (signal_score (generate_signal r)) (trend_status (generate_signal r))"
proof -
  obtain s a b where t:
    "score_rsi r (score_macd r (score_support r (score_volume r (score_bias r
       (score_trend r (0, [], [])))))) = (s, a, b)"
    by (metis prod_cases3)
  show ?thesis
    by (simp add: generate_signal_def t Let_def signal_cascade_def)
qed

lemma all_buy_signals: "b \<in> {STRONG_BUY, BUY, HOLD, WAIT, SELL, STRONG_SELL}"
  by (cases b) simp_all

section \<open>The analysis returns\<close>

lemma frame_ok_indicators: "frame_ok (indicators_frame f)"
  unfolding frame_ok_def list_all_length
proof (intro allI impI)
  fix i j assume "i < length (indicators_frame f)" "j < length indicator_names"
  then show "ind (indicators_frame f ! i) (indicator_names ! j) \<noteq> None"
    using ind_indicators_defined[of i f "indicator_names ! j"] nth_mem[of j indicator_names]
    by (simp add: indicator_names_def)
qed

lemma frame_ok_row:
  "frame_ok f \<Longrightarrow> r \<in> set f \<Longrightarrow> name \<in> set indicator_names \<Longrightarrow> \<exists>v. row_item r name = Some v"
  by (auto simp: frame_ok_def list_all_iff row_item_def)

lemma iloc_neg_Some:
  "1 \<le> k \<Longrightarrow> k \<le> length f \<Longrightarrow> iloc_neg f k = Some (f ! (length f - k))"
  by (simp add: iloc_neg_def)

lemma iloc_neg_mem: "iloc_neg f k = Some r \<Longrightarrow> r \<in> set f"
  by (auto simp: iloc_neg_def split: if_splits)

lemma pydiv_pos: "fgt b (Num 0) \<Longrightarrow> pydiv a b = Some (fdiv a b)"
  by (auto simp: pydiv_def fgt_def)

lemma read_averages_total:
  assumes "frame_ok f" "1 \<le> length f"
  shows "\<exists>r'. read_averages f r = Some r'"
proof -
  have "f \<noteq> []" using assms(2) by auto
  then have l: "iloc_neg f 1 = Some (last f)"
    using assms(2) by (simp add: iloc_neg_Some last_conv_nth)
  have m: "last f \<in> set f" using assms(2) by (cases f) auto
  obtain v5 where v5: "row_item (last f) ''MA5'' = Some v5"
    using frame_ok_row[OF assms(1) m, of "''MA5''"] by (auto simp: indicator_names_def)
  obtain v10 where v10: "row_item (last f) ''MA10'' = Some v10"
    using frame_ok_row[OF assms(1) m, of "''MA10''"] by (auto simp: indicator_names_def)
  obtain v20 where v20: "row_item (last f) ''MA20'' = Some v20"
    using frame_ok_row[OF assms(1) m, of "''MA20''"] by (auto simp: indicator_names_def)
  show ?thesis unfolding read_averages_def l by (simp add: v5 v10 v20)
qed

lemma analyze_trend_total:
  assumes "frame_ok f" "1 \<le> length f"
  shows "\<exists>r'. analyze_trend f r = Some r'"
proof -
  obtain prev where p: "(if length f \<ge> 5 then iloc_neg f 5 else iloc_neg f 1) = Some prev"
    using assms(2) by (cases "5 \<le> length f") (auto simp: iloc_neg_def)
  then have m: "prev \<in> set f" by (auto dest: iloc_neg_mem split: if_splits)
  obtain v5 where v5: "row_item prev ''MA5'' = Some v5"
    using frame_ok_row[OF assms(1) m, of "''MA5''"] by (auto simp: indicator_names_def)
  obtain v20 where v20: "row_item prev ''MA20'' = Some v20"
    using frame_ok_row[OF assms(1) m, of "''MA20''"] by (auto simp: indicator_names_def)
  show ?thesis
    unfolding analyze_trend_def Let_def p
    by (simp add: v5 v20 pydiv_pos)
qed

lemma bias_of_total: "fgt ma (Num 0) \<Longrightarrow> \<exists>b. bias_of price ma = Some b"
  by (simp add: bias_of_def pydiv_pos)

lemma calculate_bias_total: "\<exists>r'. calculate_bias r = Some r'"
  unfolding calculate_bias_def Let_def bias_of_def
  by (simp add: pydiv_pos)

lemma bb_ok_fields: "bb_fields r' = bb_fields r \<Longrightarrow> bb_ok r \<Longrightarrow> bb_ok r'"
  by (simp add: bb_fields_def bb_ok_def)

lemma ind_after_bb:
  "i < length g \<Longrightarrow> name \<in> set [''BB_MIDDLE'', ''BB_UPPER'', ''BB_LOWER''] \<Longrightarrow>
     ind (volume_ma_frame (momentum_frame g) ! i) name = ind (g ! i) name"
  by (auto simp: momentum_frame_def volume_ma_frame_def ind_setitem)

lemma read_indicators_total:
  assumes "20 \<le> length f"
  shows "\<exists>r'. read_indicators (indicators_frame f) r = Some r' \<and> bb_ok r'"
proof -
  let ?F = "indicators_frame f"
  let ?g = "kdj_frame (rsi_frame (macd_frame (mas_frame f)))"
  let ?i = "length f - 1"
  have i: "19 \<le> ?i" "?i < length ?g" using assms by simp_all
  have l: "iloc_neg ?F 1 = Some (?F ! ?i)"
    using assms by (simp add: iloc_neg_Some)
  obtain m s where ms: "0 \<le> s" "ind (bb_frame ?g ! ?i) ''BB_MIDDLE'' = Some (Num m)"
      "ind (bb_frame ?g ! ?i) ''BB_UPPER'' = Some (Num (m + s * 2))"
      "ind (bb_frame ?g ! ?i) ''BB_LOWER'' = Some (Num (m - s * 2))"
    using bb_frame_row[OF i] by blast
  have F: "?F = volume_ma_frame (momentum_frame (bb_frame ?g))"
    by (simp add: indicators_frame_def)
  have ib: "?i < length (bb_frame ?g)" using i by simp
  have v: "ind (?F ! ?i) ''BB_MIDDLE'' = Some (Num m)"
      "ind (?F ! ?i) ''BB_UPPER'' = Some (Num (m + s * 2))"
      "ind (?F ! ?i) ''BB_LOWER'' = Some (Num (m - s * 2))"
    unfolding F using ind_after_bb[OF ib] ms by simp_all
  show ?thesis
    unfolding read_indicators_def l
    using ms(1) v by (auto simp: row_get_def bb_ok_def Let_def)
qed

lemma analyze_volume_total:
  assumes "2 \<le> length f"
  shows "\<exists>r'. analyze_volume f r = Some r' \<and> bb_fields r' = bb_fields r"
proof -
  have l: "iloc_neg f 1 = Some (f ! (length f - 1))" "iloc_neg f 2 = Some (f ! (length f - 2))"
    using assms by (simp_all add: iloc_neg_Some)
  show ?thesis
    unfolding analyze_volume_def l Let_def
    by (simp add: bb_fields_def)
qed

lemma analyze_support_resistance_total:
  "\<exists>r'. analyze_support_resistance f r = Some r' \<and> bb_fields r' = bb_fields r"
  unfolding analyze_support_resistance_def Let_def
  by (simp add: pydiv_pos bb_fields_def)

lemma analyze_macd_total:
  assumes "frame_ok f" "2 \<le> length f"
  shows "\<exists>r'. analyze_macd f r = Some r' \<and> bb_fields r' = bb_fields r"
proof (cases "length f < MACD_SLOW")
  case True
  then show ?thesis by (simp add: analyze_macd_def bb_fields_def)
next
  case False
  define lrow where "lrow = f ! (length f - 1)"
  define prow where "prow = f ! (length f - 2)"
  have l: "iloc_neg f 1 = Some lrow" "iloc_neg f 2 = Some prow"
    using assms(2) by (simp_all add: iloc_neg_Some lrow_def prow_def)
  have m: "lrow \<in> set f" "prow \<in> set f" using assms(2) by (simp_all add: lrow_def prow_def)
  obtain dif where dif: "row_item lrow ''MACD_DIF'' = Some dif"
    using frame_ok_row[OF assms(1) m(1), of "''MACD_DIF''"] by (auto simp: indicator_names_def)
  obtain dea where dea: "row_item lrow ''MACD_DEA'' = Some dea"
    using frame_ok_row[OF assms(1) m(1), of "''MACD_DEA''"] by (auto simp: indicator_names_def)
  obtain bar where bar: "row_item lrow ''MACD_BAR'' = Some bar"
    using frame_ok_row[OF assms(1) m(1), of "''MACD_BAR''"] by (auto simp: indicator_names_def)
  obtain pdif where pdif: "row_item prow ''MACD_DIF'' = Some pdif"
    using frame_ok_row[OF assms(1) m(2), of "''MACD_DIF''"] by (auto simp: indicator_names_def)
  obtain pdea where pdea: "row_item prow ''MACD_DEA'' = Some pdea"
    using frame_ok_row[OF assms(1) m(2), of "''MACD_DEA''"] by (auto simp: indicator_names_def)
  show ?thesis
    unfolding analyze_macd_def l Let_def
    using False by (simp add: dif dea bar pdif pdea bb_fields_def)
qed

lemma analyze_rsi_total:
  assumes "frame_ok f" "1 \<le> length f"
  shows "\<exists>r'. analyze_rsi f r = Some r' \<and> bb_fields r' = bb_fields r"
proof (cases "length f < RSI_LONG")
  case True
  then show ?thesis by (simp add: analyze_rsi_def bb_fields_def)
next
  case False
  define lrow where "lrow = f ! (length f - 1)"
  have l: "iloc_neg f 1 = Some lrow"
    using assms(2) by (simp_all add: iloc_neg_Some lrow_def)
  have m: "lrow \<in> set f" using assms(2) by (simp_all add: lrow_def)
  obtain a where a: "row_item lrow ''RSI_6'' = Some a"
    using frame_ok_row[OF assms(1) m(1), of "''RSI_6''"] by (auto simp: indicator_names_def)
  obtain b where b: "row_item lrow ''RSI_12'' = Some b"
    using frame_ok_row[OF assms(1) m(1), of "''RSI_12''"] by (auto simp: indicator_names_def)
  obtain c where c: "row_item lrow ''RSI_24'' = Some c"
    using frame_ok_row[OF assms(1) m(1), of "''RSI_24''"] by (auto simp: indicator_names_def)
  show ?thesis
    unfolding analyze_rsi_def l Let_def str_nat_periods
    using False by (simp add: a b c bb_fields_def)
qed

lemma analyze_kdj_total:
  "\<exists>r'. analyze_kdj f r = Some r' \<and> bb_fields r' = bb_fields r"
  unfolding analyze_kdj_def Let_def
  by (simp add: bb_fields_def)

lemma analyze_bollinger_bands_total:
  assumes "bb_ok r"
  shows "\<exists>r'. analyze_bollinger_bands f r = Some r'"
proof -
  obtain m s where ms: "0 \<le> s" "bb_middle r = Num m" "bb_upper r = Num (m + s * 2)"
      "bb_lower r = Num (m - s * 2)"
    using assms by (auto simp: bb_ok_def)
  have "fgt (bb_lower r) (Num 0) \<Longrightarrow> pydiv (fsub (bb_upper r) (bb_lower r)) (bb_middle r)
          = Some (fdiv (fsub (bb_upper r) (bb_lower r)) (bb_middle r))"
    using ms by (auto simp: pydiv_def fgt_def)
  then show ?thesis
    unfolding analyze_bollinger_bands_def Let_def
    by simp
qed

lemma analyze_momentum_total: "\<exists>r'. analyze_momentum f r = Some r'"
  unfolding analyze_momentum_def Let_def by simp

lemma analyze_volume_ma_total:
  assumes "1 \<le> length f"
  shows "\<exists>r'. analyze_volume_ma f r = Some r'"
proof -
  have l: "iloc_neg f 1 = Some (f ! (length f - 1))"
    using assms by (simp_all add: iloc_neg_Some)
  show ?thesis unfolding analyze_volume_ma_def l Let_def by simp
qed

lemma analyze_some:
  assumes "20 \<le> length (h ! p)"
  shows "\<exists>r fs. analyze (Some p) c h = Some (generate_signal r, h @ fs)"
proof -
  define S where "S = sort_key date (h ! p)"
  define F where "F = indicators_frame S"
  have lS: "length S = length (h ! p)" by (simp add: S_def)
  have lF: "20 \<le> length F" using assms by (simp add: F_def lS)
  have ok: "frame_ok F" unfolding F_def by (rule frame_ok_indicators)
  obtain fs where calc:
    "calculate_indicators (Suc (length h)) (h @ [S, S]) = Some (length h + 8, h @ [S, S] @ fs @ [F])"
    and lfs: "length fs = 6"
    using calculate_indicators_frame[of "Suc (length h)" "h @ [S, S]"]
    by (auto simp: F_def nth_append)
  have nF: "(fs @ [F]) ! 6 = F"
    using lfs by (simp add: nth_append)
  have ne: "h ! p \<noteq> []" using assms by auto
  obtain r1 where r1: "read_averages F (default_result c) = Some r1"
    using read_averages_total[OF ok] lF by fastforce
  obtain r2 where r2: "analyze_trend F r1 = Some r2"
    using analyze_trend_total[OF ok] lF by fastforce
  obtain r3 where r3: "calculate_bias r2 = Some r3"
    using calculate_bias_total by blast
  obtain r4 where r4: "read_indicators F r3 = Some r4" "bb_ok r4"
    using read_indicators_total[of S r3] assms unfolding F_def lS by blast
  obtain r5 where r5: "analyze_volume F r4 = Some r5" "bb_fields r5 = bb_fields r4"
    using analyze_volume_total[of F r4] lF by fastforce
  obtain r6 where r6: "analyze_support_resistance F r5 = Some r6" "bb_fields r6 = bb_fields r5"
    using analyze_support_resistance_total by blast
  obtain r7 where r7: "analyze_macd F r6 = Some r7" "bb_fields r7 = bb_fields r6"
    using analyze_macd_total[OF ok, of r6] lF by fastforce
  obtain r8 where r8: "analyze_rsi F r7 = Some r8" "bb_fields r8 = bb_fields r7"
    using analyze_rsi_total[OF ok, of r7] lF by fastforce
  obtain r9 where r9: "analyze_kdj F r8 = Some r9" "bb_fields r9 = bb_fields r8"
    using analyze_kdj_total by blast
  have "bb_ok r9"
    using r4(2) r5(2) r6(2) r7(2) r8(2) r9(2) by (simp add: bb_ok_def bb_fields_def)
  then obtain r10 where r10: "analyze_bollinger_bands F r9 = Some r10"
    using analyze_bollinger_bands_total by blast
  obtain r11 where r11: "analyze_momentum F r10 = Some r11"
    using analyze_momentum_total by blast
  obtain r12 where r12: "analyze_volume_ma F r11 = Some r12"
    using analyze_volume_ma_total[of F r11] lF by fastforce
  have "analyze (Some p) c h = Some (generate_signal r12, h @ [S, S] @ fs @ [F])"
    using assms ne
    by (simp add: analyze_def Let_def df_sort_values_date_def df_reset_index_def df_new_def
        S_def[symmetric] calc nF r1 r2 r3 r4 r5 r6 r7 r8 r9 r10 r11 r12)
  then show ?thesis by blast
qed

lemma analyze_degenerate:
  assumes "df0 = None \<or> length (h ! the df0) < 20"
  shows "analyze df0 c h =
           Some ((default_result c)\<lparr>risk_factors := [MSG_INSUFFICIENT_ANALYSIS]\<rparr>, h)"
  using assms by (auto simp: analyze_def default_result_def)

lemma analyze_returns:
  obtains (short) "df0 = None \<or> length (h ! the df0) < 20"
      "analyze df0 c h =
         Some ((default_result c)\<lparr>risk_factors := [MSG_INSUFFICIENT_ANALYSIS]\<rparr>, h)"
  | (full) p r fs where "df0 = Some p" "20 \<le> length (h ! p)"
      "analyze df0 c h = Some (generate_signal r, h @ fs)"
proof (cases "df0 = None \<or> length (h ! the df0) < 20")
  case True
  then show ?thesis using analyze_degenerate[OF True] short by blast
next
  case False
  then obtain p where p: "df0 = Some p" "20 \<le> length (h ! p)" by auto
  then show ?thesis using analyze_some[OF p(2), of c] full by blast
qed

lemma length_flat_frame [simp]: "length (flat_frame n) = n"
  by (simp add: flat_frame_def)






lemma length_gains [simp]: "length (gains xs) = length xs"
  by (cases xs) (simp_all add: gains_def)

lemma length_losses [simp]: "length (losses xs) = length xs"
  by (cases xs) (simp_all add: losses_def)




lemma rolling_mean_Num:
  assumes "i < length ys"
  shows "rolling w fmean (map Num ys) ! i =
           (if i + 1 < w \<or> w = 0 then NaN else Num (window_mean w i ys))"
proof (cases "i + 1 < w \<or> w = 0")
  case True
  then show ?thesis using assms by (auto simp: rolling_nth fmean_def)
next
  case False
  let ?win = "take w (drop (i + 1 - w) ys)"
  have "length ?win = w" using False assms by simp
  then have "?win \<noteq> []" using False by auto
  then have "fmean (map Num ?win) = Num (sum_list ?win / real (length ?win))"
    by (rule fmean_Num)
  then show ?thesis
    using False assms \<open>length ?win = w\<close>
    by (simp add: rolling_nth take_map drop_map window_mean_def)
qed





lemma length_series_frame [simp]: "length (series_frame cs) = length cs"
  by (simp add: series_frame_def)

lemma col_close_series_frame [simp]: "col_close (series_frame cs) = map Num cs"
  by (rule nth_equalityI) (simp_all add: series_frame_def col_close_def)

lemma close_series_frame: "i < length cs \<Longrightarrow> close (series_frame cs ! i) = cs ! i"
  by (simp add: series_frame_def)

lemma ind_mas_frame:
  assumes "i < length f"
  shows "ind (mas_frame f ! i) ''MA5'' = Some (rolling 5 fmean (col_close f) ! i)"
    "ind (mas_frame f ! i) ''MA10'' = Some (rolling 10 fmean (col_close f) ! i)"
    "ind (mas_frame f ! i) ''MA20'' = Some (rolling 20 fmean (col_close f) ! i)"
    "ind (mas_frame f ! i) ''MA60'' =
       Some ((if length f \<ge> 60 then rolling 60 fmean (col_close f)
              else rolling 20 fmean (col_close f)) ! i)"
    "ind (mas_frame f ! i) ''MA250'' =
       Some ((if length f \<ge> 250 then rolling 250 fmean (col_close f)
              else if length f \<ge> 60 then rolling 60 fmean (col_close f)
              else rolling 20 fmean (col_close f)) ! i)"
  using assms by (simp_all add: mas_frame_def Let_def ind_setitem nth_or_nan_def)

lemma close_mas_frame: "i < length f \<Longrightarrow> close (mas_frame f ! i) = close (f ! i)"
  by (simp add: mas_frame_def Let_def base_setitem)

lemma flt_asym: "flt a b \<Longrightarrow> \<not> flt b a"
  by (cases a; cases b) simp_all

lemma analyze_trend_bull:
  assumes "5 \<le> length f"
    and "row_item (f ! (length f - 5)) ''MA5'' = Some p5"
    and "row_item (f ! (length f - 5)) ''MA20'' = Some p20"
    and "fgt (ma5 r) (ma10 r)" "fgt (ma10 r) (ma20 r)"
  shows "\<exists>r'. analyze_trend f r = Some r'
          \<and> trend_status r' =
              (if fgt (spread_pct (ma5 r) (ma20 r)) (spread_pct p5 p20)
                  \<and> fgt (spread_pct (ma5 r) (ma20 r)) (Num 5)
               then STRONG_BULL else BULL)"
proof -
  define prow where "prow = f ! (length f - 5)"
  have p: "(if length f \<ge> 5 then iloc_neg f 5 else iloc_neg f 1) = Some prow"
    using assms(1) by (simp add: iloc_neg_def prow_def)
  show ?thesis
    unfolding analyze_trend_def Let_def p
    using assms(2-) by (simp add: prow_def[symmetric] spread_pct_def pydiv_pos)
qed

lemma analyze_trend_bear:
  assumes "5 \<le> length f"
    and "row_item (f ! (length f - 5)) ''MA5'' = Some p5"
    and "row_item (f ! (length f - 5)) ''MA20'' = Some p20"
    and "flt (ma5 r) (ma10 r)" "flt (ma10 r) (ma20 r)"
  shows "\<exists>r'. analyze_trend f r = Some r'
          \<and> trend_status r' =
              (if fgt (spread_pct (ma20 r) (ma5 r)) (spread_pct p20 p5)
                  \<and> fgt (spread_pct (ma20 r) (ma5 r)) (Num 5)
               then STRONG_BEAR else BEAR)"
proof -
  define prow where "prow = f ! (length f - 5)"
  have p: "(if length f \<ge> 5 then iloc_neg f 5 else iloc_neg f 1) = Some prow"
    using assms(1) by (simp add: iloc_neg_def prow_def)
  have n: "fgt (ma5 r) (ma10 r) = False"
    using assms(4) flt_asym[of "ma5 r" "ma10 r"] by (simp add: fgt_def)
  show ?thesis
    unfolding analyze_trend_def Let_def p n
    using assms(2-) by (simp add: prow_def[symmetric] spread_pct_def pydiv_pos)
qed

lemma mas_series_row:
  assumes "i < length cs"
  shows "ind (mas_frame (series_frame cs) ! i) ''MA5'' =
           Some (if i + 1 < 5 then NaN else Num (window_mean 5 i cs))"
    "ind (mas_frame (series_frame cs) ! i) ''MA10'' =
           Some (if i + 1 < 10 then NaN else Num (window_mean 10 i cs))"
    "ind (mas_frame (series_frame cs) ! i) ''MA20'' =
           Some (if i + 1 < 20 then NaN else Num (window_mean 20 i cs))"
  using assms by (simp_all add: ind_mas_frame rolling_mean_Num)

lemma mas_series_row_short:
  assumes "i < length cs" "length cs < 60"
  shows "ind (mas_frame (series_frame cs) ! i) ''MA60'' =
           Some (if i + 1 < 20 then NaN else Num (window_mean 20 i cs))"
    "ind (mas_frame (series_frame cs) ! i) ''MA250'' =
           Some (if i + 1 < 20 then NaN else Num (window_mean 20 i cs))"
  using assms by (simp_all add: ind_mas_frame rolling_mean_Num)

lemma trend_sample_means:
  "window_mean 5 24 trend_sample = 66 / 5" "window_mean 10 24 trend_sample = 58 / 5"
  "window_mean 20 24 trend_sample = 54 / 5"
  "window_mean 5 20 trend_sample = 14" "window_mean 20 20 trend_sample = 11"
  "window_mean 5 19 trend_sample = 10" "window_mean 20 19 trend_sample = 10"
  by (simp_all add: window_mean_def trend_sample_def)

lemma bear_sample_means:
  "window_mean 5 24 bear_sample = 9" "window_mean 10 24 bear_sample = 19 / 2"
  "window_mean 20 24 bear_sample = 39 / 4"
  "window_mean 5 20 bear_sample = 41 / 5" "window_mean 20 20 bear_sample = 191 / 20"
  by (simp_all add: window_mean_def bear_sample_def)

lemma length_samples [simp]: "length trend_sample = 25" "length bear_sample = 25"
  by (simp_all add: trend_sample_def bear_sample_def)

lemma read_averages_series:
  assumes "length cs = Suc k" "19 \<le> k" "k < 59"
  shows "read_averages (mas_frame (series_frame cs)) r =
           Some (r\<lparr>current_price := Num (cs ! k),
                   ma5 := Num (window_mean 5 k cs),
                   ma10 := Num (window_mean 10 k cs),
                   ma20 := Num (window_mean 20 k cs),
                   ma60 := Num (window_mean 20 k cs),
                   ma250 := Num (window_mean 20 k cs)\<rparr>)"
proof -
  define lrow where "lrow = mas_frame (series_frame cs) ! k"
  have i: "k < length cs" "length cs < 60" using assms by auto
  have l: "iloc_neg (mas_frame (series_frame cs)) 1 = Some lrow"
    using assms by (simp add: iloc_neg_def lrow_def)
  have c: "close lrow = cs ! k"
    using i by (simp add: lrow_def close_mas_frame close_series_frame)
  have v: "ind lrow ''MA5'' = Some (Num (window_mean 5 k cs))"
      "ind lrow ''MA10'' = Some (Num (window_mean 10 k cs))"
      "ind lrow ''MA20'' = Some (Num (window_mean 20 k cs))"
      "ind lrow ''MA60'' = Some (Num (window_mean 20 k cs))"
      "ind lrow ''MA250'' = Some (Num (window_mean 20 k cs))"
    using assms(2) mas_series_row[OF i(1)] mas_series_row_short[OF i]
    by (simp_all add: lrow_def)
  show ?thesis
    unfolding read_averages_def l
    by (simp add: row_item_def row_get_def c v)
qed

lemma trend_sample_rows:
  "read_averages (mas_frame (series_frame trend_sample)) r =
     Some (r\<lparr>current_price := Num 9, ma5 := Num (66 / 5), ma10 := Num (58 / 5),
             ma20 := Num (54 / 5), ma60 := Num (54 / 5), ma250 := Num (54 / 5)\<rparr>)"
  "row_item (mas_frame (series_frame trend_sample) ! 20) ''MA5'' = Some (Num 14)"
  "row_item (mas_frame (series_frame trend_sample) ! 20) ''MA20'' = Some (Num 11)"
  using read_averages_series[of trend_sample 24 r]
    mas_series_row[of 20 trend_sample]
  by (simp_all add: trend_sample_means row_item_def) (simp add: trend_sample_def)

lemma bear_sample_rows:
  "read_averages (mas_frame (series_frame bear_sample)) r =
     Some (r\<lparr>current_price := Num 11, ma5 := Num 9, ma10 := Num (19 / 2),
             ma20 := Num (39 / 4), ma60 := Num (39 / 4), ma250 := Num (39 / 4)\<rparr>)"
  "row_item (mas_frame (series_frame bear_sample) ! 20) ''MA5'' = Some (Num (41 / 5))"
  "row_item (mas_frame (series_frame bear_sample) ! 20) ''MA20'' = Some (Num (191 / 20))"
  using read_averages_series[of bear_sample 24 r]
    mas_series_row[of 20 bear_sample]
  by (simp_all add: bear_sample_means row_item_def) (simp add: bear_sample_def)

lemma ind_macd_frame:
  assumes "i < length f"
  shows "ind (macd_frame f ! i) ''MACD_DIF'' = Some (macd_dif_series (col_close f) ! i)"
    "ind (macd_frame f ! i) ''MACD_DEA'' = Some (macd_dea_series (col_close f) ! i)"
    "ind (macd_frame f ! i) ''MACD_BAR'' = Some (macd_bar_series (col_close f) ! i)"
  using assms
  by (simp_all add: macd_frame_def Let_def ind_setitem nth_or_nan_def macd_dif_series_def
      macd_dea_series_def macd_bar_series_def)

lemma macd_sample_fast:
  "ewm_mean MACD_FAST (map Num macd_sample) =
     map Num [100, 100, 100, 100, 100, 100, 100, 100, 100, 100, 100, 100, 100, 100, 100, 100, 100,
       100, 100, 100, 100, 1200 / 13, 14500 / 169, 176400 / 2197, 2819200 / 28561,
       42435600 / 371293]"
  by (simp add: ewm_mean_def macd_sample_def MACD_FAST_def Let_def)

lemma macd_sample_slow:
  "ewm_mean MACD_SLOW (map Num macd_sample) =
     map Num [100, 100, 100, 100, 100, 100, 100, 100, 100, 100, 100, 100, 100, 100, 100, 100, 100,
       100, 100, 100, 100, 2600 / 27, 67700 / 729, 1765400 / 19683, 52008200 / 531441,
       1512781400 / 14348907]"
  by (simp add: ewm_mean_def macd_sample_def MACD_SLOW_def Let_def)

lemma macd_sample_dif:
  "macd_dif_series (map Num macd_sample) =
     map Num [0, 0, 0, 0, 0, 0, 0, 0, 0, 0, 0, 0, 0, 0, 0, 0, 0, 0, 0, 0, 0, - (1400 / 351),
       - (870800 / 123201), - (406502600 / 43243551), 12832267000 / 15178486401,
       47219333539000 / 5327648726751]"
  unfolding macd_dif_series_def macd_sample_fast macd_sample_slow
  by (simp add: fsub_def)

lemma macd_sample_dea:
  "macd_dea_series (map Num macd_sample) =
     map Num [0, 0, 0, 0, 0, 0, 0, 0, 0, 0, 0, 0, 0, 0, 0, 0, 0, 0, 0, 0, 0, - (280 / 351),
       - (252784 / 123201), - (761411336 / 216217755), - (1004860180744 / 379462160025),
       - (230340355289576 / 665956090843875)]"
  unfolding macd_dea_series_def macd_sample_dif
  by (simp add: ewm_mean_def MACD_SIGNAL_def Let_def)

lemma macd_sample_bar:
  "macd_bar_series (map Num macd_sample) ! 25 = Num (12265514095329152 / 665956090843875)"
  unfolding macd_bar_series_def macd_sample_dif macd_sample_dea
  by (simp add: fsub_def)

lemma macd_sample_rows:
  "row_item (macd_frame (series_frame macd_sample) ! 25) ''MACD_DIF''
     = Some (Num (47219333539000 / 5327648726751))"
  "row_item (macd_frame (series_frame macd_sample) ! 25) ''MACD_DEA''
     = Some (Num (- (230340355289576 / 665956090843875)))"
  "row_item (macd_frame (series_frame macd_sample) ! 25) ''MACD_BAR''
     = Some (Num (12265514095329152 / 665956090843875))"
  "row_item (macd_frame (series_frame macd_sample) ! 24) ''MACD_DIF''
     = Some (Num (12832267000 / 15178486401))"
  "row_item (macd_frame (series_frame macd_sample) ! 24) ''MACD_DEA''
     = Some (Num (- (1004860180744 / 379462160025)))"
proof -
  have l: "length macd_sample = 26" by (simp add: macd_sample_def)
  show "row_item (macd_frame (series_frame macd_sample) ! 25) ''MACD_DIF''
     = Some (Num (47219333539000 / 5327648726751))"
    using l by (simp add: row_item_def ind_macd_frame macd_sample_dif)
  show "row_item (macd_frame (series_frame macd_sample) ! 25) ''MACD_DEA''
     = Some (Num (- (230340355289576 / 665956090843875)))"
    using l by (simp add: row_item_def ind_macd_frame macd_sample_dea)
  show "row_item (macd_frame (series_frame macd_sample) ! 25) ''MACD_BAR''
     = Some (Num (12265514095329152 / 665956090843875))"
    using l by (simp add: row_item_def ind_macd_frame macd_sample_bar)
  show "row_item (macd_frame (series_frame macd_sample) ! 24) ''MACD_DIF''
     = Some (Num (12832267000 / 15178486401))"
    using l by (simp add: row_item_def ind_macd_frame macd_sample_dif)
  show "row_item (macd_frame (series_frame macd_sample) ! 24) ''MACD_DEA''
     = Some (Num (- (1004860180744 / 379462160025)))"
    using l by (simp add: row_item_def ind_macd_frame macd_sample_dea)
qed

lemma all_macd_statuses:
  "m \<in> {GOLDEN_CROSS_ZERO, GOLDEN_CROSS, BULLISH, CROSSING_UP, CROSSING_DOWN, BEARISH,
         DEATH_CROSS}"
  by (cases m) simp_all

section \<open>The claims\<close>

text \<open>
  Claim C1. For every frame given to \<open>analyze\<close>, on every heap, the analysis returns a
  result whose \<open>signal_score\<close> lies between 0 and 100 and whose \<open>buy_signal\<close> is one of
  the six members of \<open>BuySignal\<close>. The six sub-scores of \<open>_generate_signal\<close> lie
  between 0 and their maxima 30, 20, 15, 10, 15 and 10, and for every result record
  whatsoever they add up to a score between 0 and 100.
\<close>

theorem C1_score_and_action_bounded:
  "(\<exists>r h'. analyze df0 c h = Some (r, h') \<and> 0 \<le> signal_score r \<and> signal_score r \<le> 100
       \<and> buy_signal r \<in> {STRONG_BUY, BUY, HOLD, WAIT, SELL, STRONG_SELL})
   \<and> 0 \<le> signal_score (generate_signal x) \<and> signal_score (generate_signal x) \<le> 100
   \<and> signal_score (generate_signal x) =
         trend_scores (trend_status x) + bias_points (bias_ma5 x)
         + volume_scores (volume_status x)
         + ((if support_ma5 x then 5 else 0) + (if support_ma10 x then 5 else 0))
         + macd_scores (macd_status x) + rsi_scores (rsi_status x)
   \<and> 0 \<le> trend_scores t \<and> trend_scores t \<le> 30
   \<and> 0 \<le> bias_points b \<and> bias_points b \<le> 20
   \<and> 0 \<le> volume_scores v \<and> volume_scores v \<le> 15
   \<and> 0 \<le> macd_scores m \<and> macd_scores m \<le> 15
   \<and> 0 \<le> rsi_scores q \<and> rsi_scores q \<le> 10"
proof -
  have x: "0 \<le> signal_score (generate_signal x) \<and> signal_score (generate_signal x) \<le> 100"
    using signal_score_range[of x] by simp
  have "\<exists>r h'. analyze df0 c h = Some (r, h') \<and> 0 \<le> signal_score r \<and> signal_score r \<le> 100
       \<and> buy_signal r \<in> {STRONG_BUY, BUY, HOLD, WAIT, SELL, STRONG_SELL}"
  proof (cases rule: analyze_returns[of df0 h c])
    case short
    then show ?thesis using all_buy_signals by (simp add: default_result_def)
  next
    case (full p r fs)
    then show ?thesis
      using signal_score_range[of r] all_buy_signals[of "buy_signal (generate_signal r)"]
      by auto
  qed
  moreover have "0 \<le> bias_points b \<and> bias_points b \<le> 20"
    using bias_points_range[of b] by simp
  ultimately show ?thesis
    using x signal_score_sum[of x] trend_scores_range[of t] volume_scores_range[of v]
      macd_scores_range[of m] rsi_scores_range[of q]
    by blast
qed

text \<open>
  Claim C2, as amended. The keys of the mapping that \<open>to_dict\<close> returns are the same
  for every result: the names of all fields of the result except \<open>support_levels\<close>
  and \<open>resistance_levels\<close>.
\<close>
theorem C2_to_dict_keys:
  "dict_keys (to_dict r)
     = set TrendAnalysisResult_fields - {''support_levels'', ''resistance_levels''}"
  unfolding dict_keys_def to_dict_def TrendAnalysisResult_fields_def
  by auto

text \<open>
  Claim C2 as stated fails: the keys of \<open>to_dict\<close> do not cover the fields of the
  result; the two lists of levels have no key.
\<close>
theorem C2_to_dict_misses_levels:
  "\<not> set TrendAnalysisResult_fields \<subseteq> dict_keys (to_dict (default_result ''600519''))"
  unfolding dict_keys_def to_dict_def TrendAnalysisResult_fields_def
  by simp

text \<open>
  Claim C3. When the frame is \<open>None\<close> or has fewer than 20 rows (an empty one
  included), \<open>analyze\<close> raises nothing and returns, on an unchanged heap, the result
  whose \<open>risk_factors\<close> holds exactly the insufficient-data message, whose
  \<open>signal_score\<close> is 0, and whose other fields are all at their defaults.
\<close>
theorem C3_short_series_degenerate:
  assumes "df0 = None \<or> length (h ! the df0) < 20"
  shows "\<exists>r. analyze df0 c h = Some (r, h)
           \<and> risk_factors r = [MSG_INSUFFICIENT_ANALYSIS]
           \<and> signal_score r = 0
           \<and> trend_status r = CONSOLIDATION \<and> volume_status r = NORMAL
           \<and> macd_status r = BULLISH \<and> rsi_status r = RS_NEUTRAL \<and> buy_signal r = WAIT
           \<and> r\<lparr>risk_factors := []\<rparr> = default_result c"
  by (simp add: analyze_degenerate[OF assms] default_result_def)

text \<open>C3 at \<open>None\<close> and at a series of 19 bars.\<close>
theorem C3_short_series_degenerate_witness:
  "(\<exists>r. analyze None ''600519'' [] = Some (r, [])
        \<and> risk_factors r = [MSG_INSUFFICIENT_ANALYSIS] \<and> signal_score r = 0
        \<and> r\<lparr>risk_factors := []\<rparr> = default_result ''600519'')
   \<and> (\<exists>r. analyze (Some 0) ''600519'' [flat_frame 19] = Some (r, [flat_frame 19])
        \<and> risk_factors r = [MSG_INSUFFICIENT_ANALYSIS] \<and> signal_score r = 0
        \<and> r\<lparr>risk_factors := []\<rparr> = default_result ''600519'')"
  using C3_short_series_degenerate[of None "[]" "''600519''"]
    C3_short_series_degenerate[of "Some 0" "[flat_frame 19]" "''600519''"]
  by auto

text \<open>
  Claim C4, as amended. For every series of at least 20 bars the analysis returns a result
  whose \<open>buy_signal\<close> is the cascade of the specification applied to its
  \<open>signal_score\<close> and its \<open>trend_status\<close>. When the frame is \<open>None\<close> or has fewer
  than 20 rows the scorer is not run and \<open>buy_signal\<close> stays at its default, WAIT.
  \<open>_generate_signal\<close> itself follows the cascade on every result record, from the
  score it computes and the trend it is given.
\<close>

theorem C4_action_cascade:
  "(\<exists>r h'. analyze df0 c h = Some (r, h')
       \<and> buy_signal r =
           (if df0 = None \<or> length (h ! the df0) < 20 then WAIT
            else signal_cascade (signal_score r) (trend_status r)))
   \<and> buy_signal (generate_signal x)
       = signal_cascade (signal_score (generate_signal x)) (trend_status x)"
proof -
  have "\<exists>r h'. analyze df0 c h = Some (r, h')
       \<and> buy_signal r =
           (if df0 = None \<or> length (h ! the df0) < 20 then WAIT
            else signal_cascade (signal_score r) (trend_status r))"
  proof (cases rule: analyze_returns[of df0 h c])
    case short
    then show ?thesis by (simp add: default_result_def)
  next
    case (full p r fs)
    then show ?thesis using generate_signal_cascade[of r] by auto
  qed
  then show ?thesis
    using generate_signal_cascade[of x] by (simp add: generate_signal_trend)
qed

text \<open>C4 at a series of 20 bars, where the cascade applies, and at one of 19.\<close>

theorem C4_action_cascade_witness:
  "(\<exists>r h'. analyze (Some 0) ''600519'' [flat_frame 20] = Some (r, h')
       \<and> buy_signal r = signal_cascade (signal_score r) (trend_status r))
   \<and> (\<exists>r h'. analyze (Some 0) ''600519'' [flat_frame 19] = Some (r, h') \<and> buy_signal r = WAIT)"
  using C4_action_cascade[of "Some 0" "''600519''" "[flat_frame 20]"]
    C4_action_cascade[of "Some 0" "''600519''" "[flat_frame 19]"]
  by auto

text \<open>
  Claim C4 as stated fails. On a series of 19 bars \<open>analyze\<close> returns the default
  result with its one risk factor: the action is WAIT, the score 0 and the trend
  CONSOLIDATION, for which the cascade gives SELL.
\<close>

theorem C4_short_series_counterexample:
  "analyze (Some 0) ''600519'' [flat_frame 19]
     = Some ((default_result ''600519'')\<lparr>risk_factors := [MSG_INSUFFICIENT_ANALYSIS]\<rparr>,
             [flat_frame 19])
   \<and> buy_signal ((default_result ''600519'')\<lparr>risk_factors := [MSG_INSUFFICIENT_ANALYSIS]\<rparr>)
       = WAIT
   \<and> signal_cascade
         (signal_score ((default_result ''600519'')\<lparr>risk_factors := [MSG_INSUFFICIENT_ANALYSIS]\<rparr>))
         (trend_status ((default_result ''600519'')\<lparr>risk_factors := [MSG_INSUFFICIENT_ANALYSIS]\<rparr>))
       = SELL"
  by (simp add: analyze_degenerate default_result_def signal_cascade_def)

text \<open>
  Claim C5, as amended. Let the frame have at least five rows, and let \<open>p5\<close> and
  \<open>p20\<close> be the MA5 and the MA20 of its fifth row from the end (\<open>df.iloc[-5]\<close>, four
  bars before the latest). When MA5 > MA10 > MA20 on the latest bar, the classifier
  returns STRONG_BULL exactly when the spread of MA5 over MA20 on the latest bar exceeds
  both the spread of \<open>p5\<close> over \<open>p20\<close> and 5, and BULL otherwise; a spread is
  \<open>100 (a - b) / b\<close>, taken as 0 unless \<open>b > 0\<close> (so also when \<open>b\<close> has no value).
  When MA5 < MA10 < MA20 it returns STRONG_BEAR or BEAR by the same rule on the spread of
  MA20 over MA5.
\<close>
theorem C5_trend_strength_rule:
  assumes "5 \<le> length f"
    and "row_item (f ! (length f - 5)) ''MA5'' = Some p5"
    and "row_item (f ! (length f - 5)) ''MA20'' = Some p20"
  shows "(fgt (ma5 r) (ma10 r) \<and> fgt (ma10 r) (ma20 r) \<longrightarrow>
            (\<exists>r'. analyze_trend f r = Some r'
               \<and> trend_status r' =
                   (if fgt (spread_pct (ma5 r) (ma20 r)) (spread_pct p5 p20)
                       \<and> fgt (spread_pct (ma5 r) (ma20 r)) (Num 5)
                    then STRONG_BULL else BULL)))
       \<and> (flt (ma5 r) (ma10 r) \<and> flt (ma10 r) (ma20 r) \<longrightarrow>
            (\<exists>r'. analyze_trend f r = Some r'
               \<and> trend_status r' =
                   (if fgt (spread_pct (ma20 r) (ma5 r)) (spread_pct p20 p5)
                       \<and> fgt (spread_pct (ma20 r) (ma5 r)) (Num 5)
                    then STRONG_BEAR else BEAR)))"
  using analyze_trend_bull[OF assms] analyze_trend_bear[OF assms] by blast

text \<open>C5 at two series of 25 bars, one in bull and one in bear alignment.\<close>
theorem C5_trend_strength_rule_witness:
  "(\<exists>r r'. read_averages (mas_frame (series_frame trend_sample)) (default_result []) = Some r
       \<and> fgt (ma5 r) (ma10 r) \<and> fgt (ma10 r) (ma20 r)
       \<and> analyze_trend (mas_frame (series_frame trend_sample)) r = Some r'
       \<and> trend_status r' = BULL)
   \<and> (\<exists>r r'. read_averages (mas_frame (series_frame bear_sample)) (default_result []) = Some r
       \<and> flt (ma5 r) (ma10 r) \<and> flt (ma10 r) (ma20 r)
       \<and> analyze_trend (mas_frame (series_frame bear_sample)) r = Some r'
       \<and> trend_status r' = BEAR)"
proof -
  let ?R = "(default_result [])\<lparr>current_price := Num 9, ma5 := Num (66 / 5), ma10 := Num (58 / 5),
             ma20 := Num (54 / 5), ma60 := Num (54 / 5), ma250 := Num (54 / 5)\<rparr>"
  let ?B = "(default_result [])\<lparr>current_price := Num 11, ma5 := Num 9, ma10 := Num (19 / 2),
             ma20 := Num (39 / 4), ma60 := Num (39 / 4), ma250 := Num (39 / 4)\<rparr>"
  have bull: "\<exists>r'. analyze_trend (mas_frame (series_frame trend_sample)) ?R = Some r'
                \<and> trend_status r' = BULL"
    using C5_trend_strength_rule[of "mas_frame (series_frame trend_sample)" "Num 14" "Num 11" ?R]
    by (simp add: trend_sample_rows spread_pct_def fgt_def fsub_def)
  have bear: "\<exists>r'. analyze_trend (mas_frame (series_frame bear_sample)) ?B = Some r'
                \<and> trend_status r' = BEAR"
    using C5_trend_strength_rule[of "mas_frame (series_frame bear_sample)" "Num (41 / 5)"
        "Num (191 / 20)" ?B]
    by (simp add: bear_sample_rows spread_pct_def fgt_def fsub_def)
  show ?thesis
    using bull bear by (simp add: trend_sample_rows bear_sample_rows fgt_def)
qed

text \<open>
  Claim C5 as stated fails. On \<open>trend_sample\<close> the latest bar has MA5 > MA10 > MA20 and
  its spread (about 22.2) exceeds 5 and the spread of the bar five bars earlier (0), yet
  the classifier returns BULL: it compares with the bar four bars earlier, whose spread is
  about 27.3.
\<close>
theorem C5_five_bars_earlier_counterexample:
  "window_mean 10 24 trend_sample < window_mean 5 24 trend_sample
   \<and> window_mean 20 24 trend_sample < window_mean 10 24 trend_sample
   \<and> spec_strong_bull trend_sample
   \<and> trend_of_series (series_frame trend_sample) = Some BULL"
proof -
  let ?R = "(default_result [])\<lparr>current_price := Num 9, ma5 := Num (66 / 5), ma10 := Num (58 / 5),
             ma20 := Num (54 / 5), ma60 := Num (54 / 5), ma250 := Num (54 / 5)\<rparr>"
  obtain r' where r': "analyze_trend (mas_frame (series_frame trend_sample)) ?R = Some r'"
      "trend_status r' = BULL"
    using analyze_trend_bull[of "mas_frame (series_frame trend_sample)" "Num 14" "Num 11" ?R]
    by (auto simp: trend_sample_rows spread_pct_def fgt_def fsub_def)
  have "trend_of_series (series_frame trend_sample) = Some BULL"
    by (simp add: trend_of_series_def calculate_mas_frame trend_sample_rows r')
  moreover have "spec_strong_bull trend_sample"
    by (simp add: spec_strong_bull_def spec_spread_def trend_sample_means Let_def)
  ultimately show ?thesis by (simp add: trend_sample_means)
qed



text \<open>
  Claim C8. \<open>analyze\<close> leaves every frame that was on the heap before the call as it
  was, the caller's frame among them: the sorted view and the result of every calculator
  are new objects appended to the heap.
\<close>
theorem C8_caller_frame_untouched:
  assumes "df0 = None \<or> the df0 < length h"
  shows "(\<exists>r h'. analyze df0 c h = Some (r, h') \<and> take (length h) h' = h
            \<and> (\<forall>k. k < length h \<longrightarrow> h' ! k = h ! k))
         \<and> df_sort_values_date q g = (length g, g @ [sort_key date (g ! q)])
         \<and> calculate_mas q g = Some (length g, g @ [mas_frame (g ! q)])
         \<and> calculate_macd q g = Some (length g, g @ [macd_frame (g ! q)])
         \<and> calculate_rsi q g = Some (length g, g @ [rsi_frame (g ! q)])
         \<and> calculate_kdj q g = Some (length g, g @ [kdj_frame (g ! q)])
         \<and> calculate_bollinger_bands q g = Some (length g, g @ [bb_frame (g ! q)])
         \<and> calculate_momentum q g = Some (length g, g @ [momentum_frame (g ! q)])
         \<and> calculate_volume_ma q g = Some (length g, g @ [volume_ma_frame (g ! q)])"
proof -
  have "\<exists>r h'. analyze df0 c h = Some (r, h') \<and> take (length h) h' = h
            \<and> (\<forall>q. q < length h \<longrightarrow> h' ! q = h ! q)"
  proof (cases rule: analyze_returns[of df0 h c])
    case short
    then show ?thesis by simp
  next
    case (full p r fs)
    then show ?thesis by (simp add: nth_append)
  qed
  then show ?thesis
    by (simp add: df_sort_values_date_def df_new_def calculate_mas_frame calculate_macd_frame
        calculate_rsi_frame calculate_kdj_frame calculate_bollinger_bands_frame
        calculate_momentum_frame calculate_volume_ma_frame)
qed

text \<open>C8 at a heap that holds one frame of 20 bars.\<close>
theorem C8_caller_frame_untouched_witness:
  "\<exists>r h'. analyze (Some 0) ''600519'' [flat_frame 20] = Some (r, h')
      \<and> take (length [flat_frame 20]) h' = [flat_frame 20] \<and> h' ! 0 = flat_frame 20"
  using C8_caller_frame_untouched[of "Some 0" "[flat_frame 20]" "''600519''"] by auto

text \<open>
  Claim C9. Let the frame have at least 26 rows, let DIF and DEA of the latest row have
  opposite signs, and let none of the four cross tests of \<open>_analyze_macd\<close> (golden
  cross, death cross, crossing up, crossing down) hold. Then \<open>_analyze_macd\<close> sets
  \<open>macd_status\<close> to BULLISH and \<open>macd_signal\<close> to the neutral-zone message; the MACD
  section of the scorer then adds 8, the points of BULLISH; and \<open>MACDStatus\<close> has no
  member besides the seven listed, so none for a neutral state.
\<close>
theorem C9_macd_neutral_scored_as_bullish:
  assumes "MACD_SLOW \<le> length f"
    and "row_item (f ! (length f - 1)) ''MACD_DIF'' = Some dif"
    and "row_item (f ! (length f - 1)) ''MACD_DEA'' = Some dea"
    and "row_item (f ! (length f - 1)) ''MACD_BAR'' = Some bar"
    and "row_item (f ! (length f - 2)) ''MACD_DIF'' = Some pdif"
    and "row_item (f ! (length f - 2)) ''MACD_DEA'' = Some pdea"
    and "(fgt dif (Num 0) \<and> flt dea (Num 0)) \<or> (flt dif (Num 0) \<and> fgt dea (Num 0))"
    and "\<not> (fle (fsub pdif pdea) (Num 0) \<and> fgt (fsub dif dea) (Num 0))"
    and "\<not> (fge (fsub pdif pdea) (Num 0) \<and> flt (fsub dif dea) (Num 0))"
    and "\<not> (fle pdif (Num 0) \<and> fgt dif (Num 0))"
    and "\<not> (fge pdif (Num 0) \<and> flt dif (Num 0))"
  shows "\<exists>r'. analyze_macd f r = Some r'
           \<and> macd_dif r' = dif \<and> macd_dea r' = dea
           \<and> macd_status r' = BULLISH
           \<and> macd_signal r' = [Lit '' MACD neutral zone'']
           \<and> fst (score_macd r' (s, a, b)) = s + 8
           \<and> macd_scores BULLISH = 8
           \<and> m \<in> {GOLDEN_CROSS_ZERO, GOLDEN_CROSS, BULLISH, CROSSING_UP, CROSSING_DOWN,
                   BEARISH, DEATH_CROSS}"
proof -
  define lrow where "lrow = f ! (length f - 1)"
  define prow where "prow = f ! (length f - 2)"
  have len: "\<not> length f < MACD_SLOW" "2 \<le> length f"
    using assms(1) by (simp_all add: MACD_SLOW_def)
  have l: "iloc_neg f 1 = Some lrow" "iloc_neg f 2 = Some prow"
    using len(2) by (simp_all add: iloc_neg_Some lrow_def prow_def)
  have rows: "row_item lrow ''MACD_DIF'' = Some dif" "row_item lrow ''MACD_DEA'' = Some dea"
      "row_item lrow ''MACD_BAR'' = Some bar" "row_item prow ''MACD_DIF'' = Some pdif"
      "row_item prow ''MACD_DEA'' = Some pdea"
    using assms(2-6) by (simp_all add: lrow_def prow_def)
  have nb: "\<not> (fgt dif (Num 0) \<and> fgt dea (Num 0))" "\<not> (flt dif (Num 0) \<and> flt dea (Num 0))"
    using assms(7) flt_asym[of dea "Num 0"] flt_asym[of dif "Num 0"] flt_asym[of "Num 0" dea]
      flt_asym[of "Num 0" dif]
    by (auto simp: fgt_def)
  have "\<exists>r'. analyze_macd f r = Some r' \<and> macd_dif r' = dif \<and> macd_dea r' = dea
           \<and> macd_status r' = BULLISH \<and> macd_signal r' = [Lit '' MACD neutral zone'']"
    unfolding analyze_macd_def l Let_def
    using len(1) assms(8-11) nb by (auto simp: rows)
  then show ?thesis
    using all_macd_statuses[of m] by (auto simp: tally_macd)
qed

text \<open>
  C9 at a series of 26 bars: flat, a three-bar drop, then a jump held for two bars.
\<close>
theorem C9_macd_neutral_scored_as_bullish_witness:
  "\<exists>r'. analyze_macd (macd_frame (series_frame macd_sample)) (default_result ''600519'') = Some r'
      \<and> fgt (macd_dif r') (Num 0) \<and> flt (macd_dea r') (Num 0)
      \<and> macd_status r' = BULLISH
      \<and> macd_signal r' = [Lit '' MACD neutral zone'']
      \<and> fst (score_macd r' (0, [], [])) = 8"
proof -
  have l: "length macd_sample = 26" by (simp add: macd_sample_def)
  show ?thesis
    using C9_macd_neutral_scored_as_bullish[of "macd_frame (series_frame macd_sample)"
        "Num (47219333539000 / 5327648726751)"
        "Num (- (230340355289576 / 665956090843875))"
        "Num (12265514095329152 / 665956090843875)"
        "Num (12832267000 / 15178486401)"
        "Num (- (1004860180744 / 379462160025))"
        "default_result ''600519''" 0 "[]" "[]" BULLISH]
    by (auto simp: l macd_sample_rows MACD_SLOW_def fgt_def fle_def fge_def fsub_def)
qed

text \<open>
  Claim C10. The analysis returns a result whose \<open>signal_score\<close> is 0 exactly when
  the frame is \<open>None\<close> or has fewer than 20 rows, and is at least 4 otherwise: the
  bias section adds at least 4 to the running score and no other section lowers it.
\<close>
theorem C10_zero_score_iff_short:
  "(\<exists>r h'. analyze df0 c h = Some (r, h')
       \<and> (signal_score r = 0 \<longleftrightarrow> (df0 = None \<or> length (h ! the df0) < 20))
       \<and> (\<not> (df0 = None \<or> length (h ! the df0) < 20) \<longrightarrow> 4 \<le> signal_score r))
   \<and> s + 4 \<le> fst (score_bias x (s, a, b))
   \<and> s \<le> fst (score_trend x (s, a, b)) \<and> s \<le> fst (score_volume x (s, a, b))
   \<and> s \<le> fst (score_support x (s, a, b)) \<and> s \<le> fst (score_macd x (s, a, b))
   \<and> s \<le> fst (score_rsi x (s, a, b))
   \<and> 4 \<le> signal_score (generate_signal x)"
proof -
  have "\<exists>r h'. analyze df0 c h = Some (r, h')
       \<and> (signal_score r = 0 \<longleftrightarrow> (df0 = None \<or> length (h ! the df0) < 20))
       \<and> (\<not> (df0 = None \<or> length (h ! the df0) < 20) \<longrightarrow> 4 \<le> signal_score r)"
  proof (cases rule: analyze_returns[of df0 h c])
    case short
    then show ?thesis by (simp add: default_result_def)
  next
    case (full p r fs)
    then show ?thesis using signal_score_range[of r] by auto
  qed
  then show ?thesis
    using signal_score_range[of x] bias_points_range[of "bias_ma5 x"]
      trend_scores_range[of "trend_status x"] volume_scores_range[of "volume_status x"]
      macd_scores_range[of "macd_status x"] rsi_scores_range[of "rsi_status x"]
    by (simp add: tally_bias tally_trend tally_volume tally_support tally_macd tally_rsi)
qed

text \<open>C10 at a series of 20 bars and at one of 19.\<close>
theorem C10_zero_score_iff_short_witness:
  "(\<exists>r h'. analyze (Some 0) ''600519'' [flat_frame 20] = Some (r, h') \<and> 4 \<le> signal_score r)
   \<and> (\<exists>r h'. analyze (Some 0) ''600519'' [flat_frame 19] = Some (r, h') \<and> signal_score r = 0)"
  using C10_zero_score_iff_short[of "Some 0" "''600519''" "[flat_frame 20]"]
    C10_zero_score_iff_short[of "Some 0" "''600519''" "[flat_frame 19]"]
  by auto

end
